theory Spec2Isabelle
  imports Complex_Main "HOL-Library.AList"
begin

section \<open>Python values, errors and strings\<close>

text \<open>
  Every way in which \<^verbatim>\<open>hed_rnn.py\<close> can stop without returning is a value of
  \<open>error\<close>: a failed \<^verbatim>\<open>assert\<close>, an out-of-range subscript, a missing attribute or
  dictionary key, the \<^verbatim>\<open>TypeError\<close> raised by \<^verbatim>\<open>multiclass_hinge_loss\<close>, and
  \<^verbatim>\<open>sys.exit(1)\<close>, which is \<open>SystemExit 1\<close>.
\<close>

datatype error = AssertionError | IndexError | AttributeError | KeyError | TypeError
  | SystemExit int

definition bindE :: "error + 'a \<Rightarrow> ('a \<Rightarrow> error + 'b) \<Rightarrow> error + 'b" where
  "bindE m k = (case m of Inl e \<Rightarrow> Inl e | Inr v \<Rightarrow> k v)"

text \<open>A subscript \<^verbatim>\<open>xs[i]\<close> on a Python list: a negative index counts from the end.\<close>

definition py_getitem :: "'a list \<Rightarrow> int \<Rightarrow> error + 'a" where
  "py_getitem xs i =
     (if 0 \<le> i then (if nat i < length xs then Inr (xs ! nat i) else Inl IndexError)
      else (if nat (- i) \<le> length xs then Inr (xs ! (length xs - nat (- i)))
            else Inl IndexError))"

text \<open>An attribute that \<^verbatim>\<open>__init__\<close> sets only on some paths.\<close>

definition getattr :: "'a option \<Rightarrow> error + 'a" where
  "getattr v = (case v of None \<Rightarrow> Inl AttributeError | Some w \<Rightarrow> Inr w)"

text \<open>
  \<^verbatim>\<open>str.lower\<close> and \<^verbatim>\<open>str.upper\<close> on the ASCII letters; the tags the module
  compares against are ASCII, and strings are taken to be ASCII throughout.
\<close>

definition ascii_uppercase :: string where
  "ascii_uppercase = ''ABCDEFGHIJKLMNOPQRSTUVWXYZ''"

definition ascii_lowercase :: string where
  "ascii_lowercase = ''abcdefghijklmnopqrstuvwxyz''"

definition lower_char :: "char \<Rightarrow> char" where
  "lower_char c =
     (case map_of (zip ascii_uppercase ascii_lowercase) c of Some l \<Rightarrow> l | None \<Rightarrow> c)"

definition upper_char :: "char \<Rightarrow> char" where
  "upper_char c =
     (case map_of (zip ascii_lowercase ascii_uppercase) c of Some u \<Rightarrow> u | None \<Rightarrow> c)"

definition lower :: "string \<Rightarrow> string" where
  "lower s = map lower_char s"

definition upper :: "string \<Rightarrow> string" where
  "upper s = map upper_char s"

section \<open>The symbolic graph\<close>

text \<open>
  The module never computes a number itself: it builds a graph of symbolic expressions and
  hands it to the tensor library. A shared variable is identified by the place that created
  it: entry \<open>j\<close> of the \<^verbatim>\<open>params\<close> list of hidden layer \<open>i\<close> or of the output layer,
  or the \<^verbatim>\<open>'updates'\<close> variable that \<^verbatim>\<open>__init__\<close> creates for such a parameter.
  Its initial value is known by its shape only, and to be all zero where the module creates
  it with \<^verbatim>\<open>np.zeros\<close>.
\<close>

datatype owner = Hidden nat | FinalLayer

datatype var_id = Param owner nat | Updates owner nat

datatype npvalue = Zeros "nat list" | Opaque "nat list"

fun shape :: "npvalue \<Rightarrow> nat list" where
  "shape (Zeros s) = s"
| "shape (Opaque s) = s"

datatype shared = Shared (sid: var_id) (sname: string) (svalue: npvalue)

datatype vkind = IScalar | FScalar | IVector | Matrix | Tensor3

datatype layer_class = GeneralLayer | LinearLayer | RecurrentOutputLayer
  | SigmoidLayer_LHUC | VanillaLstm_LHUC
  | SimplifiedLstm | SimplifiedLstmDecoder | SimplifiedGRU | GatedRecurrentUnit
  | VanillaLstm | VanillaLstmDecoder | BidirectionSLstm | BidirectionLstm
  | VanillaRNN | VanillaRNNDecoder

datatype activation = ActName string | ActTanh

text \<open>
  A layer object is the class with the arguments of the constructor call: the input
  expression, the two sizes every layer takes, the fifth positional size of the decoders and
  the bidirectional layers, and the keyword arguments \<^verbatim>\<open>activation\<close>, \<^verbatim>\<open>p\<close>,
  \<^verbatim>\<open>training\<close> and \<^verbatim>\<open>rnn_batch_training\<close> where the call passes them. The random
  generator every call receives is left out.
\<close>

datatype expr =
    Var string vkind
  | PyInt int
  | Int32 int
  | SharedVar shared
  | Output layer
  | EncodedOutput expr expr
  | Concatenate expr expr int
  | Size expr
  | FloorDiv expr expr
  | Add expr expr
  | Sub expr expr
  | Mul expr expr
  | PowInt expr int
  | Slice expr expr expr
  | Slice2 expr expr expr int int
  | SumAll expr
  | SumAxis expr int
  | Mean expr
  | MaxAxis expr int
  | AnyAxis expr int
  | Relu expr
  | Shape expr nat
  | Reshape expr "expr list"
  | Nonzero expr
  | Index expr expr
  | ToOneHot expr expr
  | CategoricalCrossentropy expr expr
  | Grad expr shared
and layer =
    Layer (lclass: layer_class) (linput: expr) (l_n_in: int) (l_size: int)
      (l_size2: "int option") (l_activation: "activation option") (l_p: "real option")
      (l_training: "expr option") (l_batch: "bool option")

text \<open>
  What the layer classes of \<^verbatim>\<open>layers/\<close> do is outside this module. The model takes from
  them, as parameters, the names and shapes of the shared variables a layer puts in its
  \<^verbatim>\<open>params\<close> list and the rank of its \<^verbatim>\<open>output\<close>.
\<close>

record ext =
  params_of :: "layer \<Rightarrow> (string \<times> nat list) list"
  out_ndim :: "layer \<Rightarrow> int"

definition layer_params :: "ext \<Rightarrow> owner \<Rightarrow> layer \<Rightarrow> shared list" where
  "layer_params E w l =
     map (\<lambda>(j, (nm, sh)). Shared (Param w j) nm (Opaque sh))
       (enumerate 0 (params_of E l))"

section \<open>The constructor\<close>

record args =
  n_in :: int
  hidden_layer_size :: "int list"
  n_out :: int
  L1_reg :: real
  L2_reg :: real
  hidden_layer_type :: "string list"
  output_type :: string
  network_type :: string
  ed_type :: string
  dropout_rate :: real
  optimizer :: string
  MLU_div_lengths :: "int list"
  loss_function :: string
  rnn_batch_training :: bool

record net =
  self_n_in :: int
  self_n_out :: int
  self_n_layers :: nat
  self_dropout_rate :: real
  self_optimizer :: string
  self_loss_function :: string
  self_is_train :: expr
  self_rnn_batch_training :: bool
  self_list_of_activations :: "string list"
  self_x :: expr
  self_y :: expr
  self_d :: "expr option"
  self_f :: "expr option"
  self_L1_reg :: real
  self_L2_reg :: real
  self_rnn_layers :: "layer list"
  self_params :: "shared list"
  self_final_layer :: layer
  self_updates :: "(shared \<times> shared) list"
  self_finetune_cost :: "expr option"
  self_errors :: "expr option"

definition list_of_activations :: "string list" where
  "list_of_activations = [''TANH'', ''SIGMOID'', ''SOFTMAX'', ''RELU'', ''RESU'']"

definition BLSTM_variants :: "string list" where
  "BLSTM_variants = [''BLSTM'', ''BSLSTM'', ''BLSTME'', ''BSLSTME'']"

definition Encoder_variants :: "string list" where
  "Encoder_variants = [''RNNE'', ''LSTME'', ''BLSTME'', ''SLSTME'', ''TANHE'']"

definition Decoder_variants :: "string list" where
  "Decoder_variants = [''RNND'', ''LSTMD'', ''SLSTMD'']"

definition is_train_var :: expr where
  "is_train_var = Var ''is_train'' IScalar"

definition x_var :: "args \<Rightarrow> expr" where
  "x_var a = (if rnn_batch_training a then Var ''x'' Tensor3 else Var ''x'' Matrix)"

definition y_var :: "args \<Rightarrow> expr" where
  "y_var a = (if rnn_batch_training a then Var ''y'' Tensor3 else Var ''y'' Matrix)"

definition d_var :: "args \<Rightarrow> expr option" where
  "d_var a = (if network_type a = ''S2S'' then Some (Var ''d'' IVector) else None)"

definition f_var :: "args \<Rightarrow> expr option" where
  "f_var a = (if network_type a = ''S2S'' then Some (Var ''f'' Matrix) else None)"

text \<open>The locals and attributes the layer loop changes.\<close>

record lstate =
  rnn_layers :: "layer list"
  params :: "shared list"
  prev_seg_end :: expr
  encoder_count :: nat

text \<open>Lines 91 to 101: the width and the input of layer \<open>i\<close> before the encoder block.\<close>

definition base_input_size :: "args \<Rightarrow> nat \<Rightarrow> error + int" where
  "base_input_size a i =
     (if i = 0 then Inr (n_in a)
      else bindE (py_getitem (hidden_layer_size a) (int i - 1)) (\<lambda>h.
           bindE (py_getitem (hidden_layer_type a) (int i - 1)) (\<lambda>t.
           if t \<in> set BLSTM_variants then Inr (h * 2) else Inr h)))"

definition base_layer_input :: "args \<Rightarrow> layer list \<Rightarrow> nat \<Rightarrow> error + expr" where
  "base_layer_input a ls i =
     (if i = 0 then Inr (x_var a)
      else bindE (py_getitem ls (int i - 1)) (\<lambda>l. Inr (Output l)))"

text \<open>
  Lines 104 to 123, the sequence-to-sequence block. It returns the layer input, the input
  width, \<^verbatim>\<open>prev_seg_end\<close> and \<^verbatim>\<open>encoder_count\<close> as they stand after the block.
\<close>

definition seq2seq :: "args \<Rightarrow> nat \<Rightarrow> expr \<Rightarrow> int \<Rightarrow> expr \<Rightarrow> nat \<Rightarrow>
    error + (expr \<times> int \<times> expr \<times> nat)" where
  "seq2seq a i layer_input input_size pse ec =
     bindE (py_getitem (hidden_layer_type a) (int i - 1)) (\<lambda>t.
     if t \<in> set Encoder_variants then
       bindE (getattr (d_var a)) (\<lambda>dur_input.
       bindE (getattr (f_var a)) (\<lambda>frame_feat_input.
       if ed_type a = ''VED'' then
         Inr (Concatenate (EncodedOutput layer_input dur_input) frame_feat_input 1,
              input_size + 4, pse, ec)
       else if ed_type a = ''HED'' then
         (let seg_len = FloorDiv (Size layer_input) (PyInt input_size);
              seg_dur_input = Slice dur_input pse (Add pse seg_len);
              num_of_segs = SumAll seg_dur_input
          in bindE (py_getitem (MLU_div_lengths a) (int ec)) (\<lambda>lo.
             bindE (py_getitem (MLU_div_lengths a) (int ec + 1)) (\<lambda>hi.
             Inr (Concatenate (EncodedOutput layer_input seg_dur_input)
                    (Slice2 frame_feat_input (PyInt 0) num_of_segs lo hi) 1,
                  input_size + (hi - lo), Add pse seg_len, ec + 1))))
       else Inr (layer_input, input_size, pse, ec)))
     else Inr (layer_input, input_size, pse, ec))"

text \<open>Lines 126 to 158: the constructor chosen by the tag of layer \<open>i\<close>.\<close>

definition hidden_layer_of :: "args \<Rightarrow> string \<Rightarrow> expr \<Rightarrow> int \<Rightarrow> int \<Rightarrow> error + layer" where
  "hidden_layer_of a t layer_input input_size h =
     (let p = Some (dropout_rate a); tr = Some is_train_var;
          b = Some (rnn_batch_training a)
      in
      if t \<in> set list_of_activations then
        Inr (Layer GeneralLayer layer_input input_size h None (Some (ActName (lower t))) p tr None)
      else if t = ''TANHE'' \<or> t = ''SIGMOIDE'' then
        Inr (Layer GeneralLayer layer_input input_size h None
               (Some (ActName (lower (butlast t)))) p tr None)
      else if t = ''TANH_LHUC'' then
        Inr (Layer SigmoidLayer_LHUC layer_input input_size h None (Some ActTanh) p tr None)
      else if t = ''SLSTM'' \<or> t = ''SLSTME'' then
        Inr (Layer SimplifiedLstm layer_input input_size h None None p tr b)
      else if t = ''SLSTMD'' then
        Inr (Layer SimplifiedLstmDecoder layer_input input_size h (Some (n_out a)) None p tr b)
      else if t = ''SGRU'' then
        Inr (Layer SimplifiedGRU layer_input input_size h None None p tr b)
      else if t = ''GRU'' then
        Inr (Layer GatedRecurrentUnit layer_input input_size h None None p tr b)
      else if t = ''LSTM'' \<or> t = ''LSTME'' then
        Inr (Layer VanillaLstm layer_input input_size h None None p tr b)
      else if t = ''LSTMD'' then
        Inr (Layer VanillaLstmDecoder layer_input input_size h (Some (n_out a)) None p tr b)
      else if t = ''BSLSTM'' \<or> t = ''BSLSTME'' then
        Inr (Layer BidirectionSLstm layer_input input_size h (Some h) None p tr b)
      else if t = ''BLSTM'' \<or> t = ''BLSTME'' then
        Inr (Layer BidirectionLstm layer_input input_size h (Some h) None p tr b)
      else if t = ''RNN'' \<or> t = ''RNNE'' then
        Inr (Layer VanillaRNN layer_input input_size h None None p tr b)
      else if t = ''RNND'' then
        Inr (Layer VanillaRNNDecoder layer_input input_size h (Some (n_out a)) None p tr b)
      else if t = ''LSTM_LHUC'' then
        Inr (Layer VanillaLstm_LHUC layer_input input_size h None None p tr b)
      else Inl (SystemExit 1))"

text \<open>One pass through the body of the loop of line 90.\<close>

definition layer_iteration :: "ext \<Rightarrow> args \<Rightarrow> nat \<Rightarrow> lstate \<Rightarrow> error + lstate" where
  "layer_iteration E a i s =
     bindE (base_input_size a i) (\<lambda>input_size.
     bindE (base_layer_input a (rnn_layers s) i) (\<lambda>layer_input.
     bindE (seq2seq a i layer_input input_size (prev_seg_end s) (encoder_count s))
       (\<lambda>(layer_input', input_size', pse', ec').
     bindE (py_getitem (hidden_layer_type a) (int i)) (\<lambda>t.
     bindE (py_getitem (hidden_layer_size a) (int i)) (\<lambda>h.
     bindE (hidden_layer_of a t layer_input' input_size' h) (\<lambda>hidden_layer.
     Inr \<lparr> rnn_layers = rnn_layers s @ [hidden_layer],
           params = params s @ layer_params E (Hidden i) hidden_layer,
           prev_seg_end = pse', encoder_count = ec' \<rparr>))))))"

fun layer_loop :: "ext \<Rightarrow> args \<Rightarrow> nat list \<Rightarrow> lstate \<Rightarrow> error + lstate" where
  "layer_loop E a [] s = Inr s"
| "layer_loop E a (i # is) s = bindE (layer_iteration E a i s) (layer_loop E a is)"

definition init_lstate :: lstate where
  "init_lstate = \<lparr> rnn_layers = [], params = [], prev_seg_end = PyInt 0, encoder_count = 0 \<rparr>"

text \<open>Lines 163 to 181: the output layer and the parameters it adds.\<close>

definition final_layer_of :: "ext \<Rightarrow> args \<Rightarrow> lstate \<Rightarrow> error + (layer \<times> shared list)" where
  "final_layer_of E a s =
     bindE (py_getitem (hidden_layer_size a) (- 1)) (\<lambda>h.
     bindE (py_getitem (hidden_layer_type a) (- 1)) (\<lambda>t.
     let input_size = (if t \<in> set BLSTM_variants then h * 2 else h) in
     bindE (py_getitem (rnn_layers s) (- 1)) (\<lambda>last_layer.
     if t \<in> set Decoder_variants then Inr (last_layer, params s)
     else
       (let output_activation = lower (output_type a) in
        bindE
          (if output_activation = ''linear'' then
             Inr (Layer LinearLayer (Output last_layer) input_size (n_out a)
                    None None None None None)
           else if output_activation = ''recurrent'' then
             Inr (Layer RecurrentOutputLayer (Output last_layer) input_size (n_out a)
                    None None None None (Some (rnn_batch_training a)))
           else if upper (output_type a) \<in> set list_of_activations then
             Inr (Layer GeneralLayer (Output last_layer) input_size (n_out a)
                    None (Some (ActName output_activation)) None None None)
           else Inl (SystemExit 1))
          (\<lambda>fl. Inr (fl, params s @ layer_params E FinalLayer fl))))))"

text \<open>Lines 183 to 186: one zero-initialised \<^verbatim>\<open>'updates'\<close> variable per parameter.\<close>

fun updates_var :: "shared \<Rightarrow> shared" where
  "updates_var (Shared v nm val) =
     Shared (case v of Param w j \<Rightarrow> Updates w j | Updates w j \<Rightarrow> Updates w j)
       ''updates'' (Zeros (shape val))"

definition make_updates :: "shared list \<Rightarrow> (shared \<times> shared) list" where
  "make_updates ps = fold (\<lambda>param us. AList.update param (updates_var param) us) ps []"

text \<open>Lines 210 to 223: the two loss methods.\<close>

definition categorical_crossentropy_loss :: "expr \<Rightarrow> expr \<Rightarrow> expr" where
  "categorical_crossentropy_loss predictions targets =
     Mean (CategoricalCrossentropy predictions targets)"

definition multiclass_hinge_loss :: "int \<Rightarrow> int \<Rightarrow> expr \<Rightarrow> expr \<Rightarrow> int \<Rightarrow> error + expr" where
  "multiclass_hinge_loss pred_ndim targ_ndim predictions targets delta =
     (let num_cls = Shape predictions 1 in
      bindE
        (if targ_ndim = pred_ndim - 1 then Inr (ToOneHot targets num_cls)
         else if targ_ndim \<noteq> pred_ndim then Inl TypeError
         else Inr targets)
        (\<lambda>targets'.
          let corrects = Index predictions (Nonzero targets');
              rest = Reshape (Index predictions (Nonzero (Sub (PyInt 1) targets')))
                       [PyInt (- 1), Sub num_cls (PyInt 1)];
              rest' = MaxAxis rest 1
          in Inr (Mean (Relu (Add (Sub rest' corrects) (PyInt delta))))))"

fun ndim :: "ext \<Rightarrow> expr \<Rightarrow> int" where
  "ndim E (Var nm IScalar) = 0"
| "ndim E (Var nm FScalar) = 0"
| "ndim E (Var nm IVector) = 1"
| "ndim E (Var nm Matrix) = 2"
| "ndim E (Var nm Tensor3) = 3"
| "ndim E (Output l) = out_ndim E l"
| "ndim E e = 0"

text \<open>Lines 188 to 208: the cost and the error expression, when the loss is a known one.\<close>

definition loss_of :: "ext \<Rightarrow> args \<Rightarrow> layer \<Rightarrow> error + (expr option \<times> expr option)" where
  "loss_of E a fl =
     (let out = Output fl; y = y_var a in
      if loss_function a = ''CCE'' then
        Inr (Some (categorical_crossentropy_loss out y),
             Some (categorical_crossentropy_loss out y))
      else if loss_function a = ''Hinge'' then
        bindE (multiclass_hinge_loss (ndim E out) (ndim E y) out y 1) (\<lambda>c.
        bindE (multiclass_hinge_loss (ndim E out) (ndim E y) out y 1) (\<lambda>e.
        Inr (Some c, Some e)))
      else if loss_function a = ''MMSE'' then
        (if rnn_batch_training a then
           (let y_mod = Reshape y [PyInt (- 1), PyInt (n_out a)];
                final_layer_output = Reshape out [PyInt (- 1), PyInt (n_out a)];
                nonzero_rows = Nonzero (AnyAxis y_mod 1);
                y_mod' = Index y_mod nonzero_rows;
                final_layer_output' = Index final_layer_output nonzero_rows
            in Inr (Some (Mean (SumAxis (PowInt (Sub final_layer_output' y_mod') 2) 1)),
                    Some (Mean (SumAxis (PowInt (Sub final_layer_output' y_mod') 2) 1))))
         else
           Inr (Some (Mean (SumAxis (PowInt (Sub out y) 2) 1)),
                Some (Mean (SumAxis (PowInt (Sub out y) 2) 1))))
      else Inr (None, None))"

text \<open>\<^verbatim>\<open>DeepEncoderDecoderNetwork.__init__\<close>.\<close>

definition init :: "ext \<Rightarrow> args \<Rightarrow> error + net" where
  "init E a =
     (if length (hidden_layer_size a) \<noteq> length (hidden_layer_type a) then Inl AssertionError
      else
        bindE (layer_loop E a [0 ..< length (hidden_layer_size a)] init_lstate) (\<lambda>s.
        bindE (final_layer_of E a s) (\<lambda>(fl, ps).
        bindE (loss_of E a fl) (\<lambda>(cost, errs).
        Inr \<lparr> self_n_in = n_in a, self_n_out = n_out a,
              self_n_layers = length (hidden_layer_size a),
              self_dropout_rate = dropout_rate a, self_optimizer = optimizer a,
              self_loss_function = loss_function a, self_is_train = is_train_var,
              self_rnn_batch_training = rnn_batch_training a,
              self_list_of_activations = list_of_activations,
              self_x = x_var a, self_y = y_var a, self_d = d_var a, self_f = f_var a,
              self_L1_reg = L1_reg a, self_L2_reg = L2_reg a,
              self_rnn_layers = rnn_layers s, self_params = ps, self_final_layer = fl,
              self_updates = make_updates ps,
              self_finetune_cost = cost, self_errors = errs \<rparr>))))"

section \<open>Compiled functions\<close>

text \<open>
  \<^verbatim>\<open>theano.function\<close> receives the input variables, the output expression, the update
  of each shared variable and the substitutions \<^verbatim>\<open>givens\<close>. A given is a symbolic
  expression (the shared data sets and the \<^verbatim>\<open>int32\<close> constants of the training
  functions) or an array (the test data of the prediction methods).
\<close>

datatype 'r given = GExpr expr | GArray "'r list" | GVector "int list"

record 'r tfunction =
  fn_inputs :: "expr list"
  fn_outputs :: expr
  fn_updates :: "(shared \<times> expr) list"
  fn_givens :: "(expr \<times> 'r given) list"

text \<open>
  The two optimisers of \<^verbatim>\<open>training_schemes/\<close> are outside this module: each is a
  parameter that returns the updates it builds.
\<close>

record opt_ext =
  compile_ADAM_train_function :: "net \<Rightarrow> expr list \<Rightarrow> expr \<Rightarrow> (shared \<times> expr) list"
  compile_RPROP_train_function :: "net \<Rightarrow> expr list \<Rightarrow> (shared \<times> expr) list"

definition lr_var :: expr where
  "lr_var = Var ''lr'' FScalar"

definition mom_var :: expr where
  "mom_var = Var ''mom'' FScalar"

text \<open>\<^verbatim>\<open>self.updates[param]\<close>: a missing key raises.\<close>

definition dict_get :: "('k \<times> 'v) list \<Rightarrow> 'k \<Rightarrow> error + 'v" where
  "dict_get m k = (case map_of m k of None \<Rightarrow> Inl KeyError | Some v \<Rightarrow> Inr v)"

text \<open>Lines 261 to 263.\<close>

fun count_freeze_params :: "ext \<Rightarrow> net \<Rightarrow> nat list \<Rightarrow> int \<Rightarrow> error + int" where
  "count_freeze_params E N [] freeze_params = Inr freeze_params"
| "count_freeze_params E N (l # ls) freeze_params =
     bindE (py_getitem (self_rnn_layers N) (int l)) (\<lambda>lay.
       count_freeze_params E N ls (freeze_params + int (length (params_of E lay))))"

text \<open>Lines 270 to 277: the loop over \<^verbatim>\<open>enumerate(zip(params, gparams))\<close>.\<close>

fun sgd_loop :: "net \<Rightarrow> int \<Rightarrow> (nat \<times> shared \<times> expr) list \<Rightarrow> (shared \<times> expr) list \<Rightarrow>
    error + (shared \<times> expr) list" where
  "sgd_loop N freeze_params [] updates = Inr updates"
| "sgd_loop N freeze_params ((i, param, gparam) # rest) updates =
     bindE (dict_get (self_updates N) param) (\<lambda>weight_update.
       let upd = Sub (Mul mom_var (SharedVar weight_update)) (Mul lr_var gparam);
           updates1 = AList.update weight_update upd updates;
           updates2 = (if int i \<ge> freeze_params
                       then AList.update param (Add (SharedVar param) upd) updates1
                       else updates1)
       in sgd_loop N freeze_params rest updates2)"

text \<open>\<^verbatim>\<open>build_finetune_functions\<close>; the data sets are the two pairs of shared variables.\<close>

definition build_finetune_functions :: "ext \<Rightarrow> opt_ext \<Rightarrow> net \<Rightarrow> expr \<times> expr \<Rightarrow> expr \<times> expr \<Rightarrow>
    bool \<Rightarrow> int \<Rightarrow> error + ('r tfunction \<times> 'r tfunction)" where
  "build_finetune_functions E Q N train_shared_xy valid_shared_xy use_lhuc layer_index =
     (case (train_shared_xy, valid_shared_xy) of
        ((train_set_x, train_set_y), (valid_set_x, valid_set_y)) \<Rightarrow>
     bindE (getattr (self_finetune_cost N)) (\<lambda>cost.
     let ps = (if use_lhuc then filter (\<lambda>p. sname p = ''c'') (self_params N)
               else self_params N);
         gparams = map (Grad cost) ps
     in
     bindE (count_freeze_params E N [0 ..< nat layer_index] 0) (\<lambda>freeze_params.
     bindE
       (if self_optimizer N = ''sgd'' then
          sgd_loop N freeze_params (enumerate 0 (zip ps gparams)) []
        else if self_optimizer N = ''adam'' then
          Inr (compile_ADAM_train_function Q N gparams lr_var)
        else if self_optimizer N = ''rprop'' then
          Inr (compile_RPROP_train_function Q N gparams)
        else Inl (SystemExit 1))
       (\<lambda>updates.
     bindE (getattr (self_errors N)) (\<lambda>errs.
     Inr (\<lparr> fn_inputs = [lr_var, mom_var], fn_outputs = errs, fn_updates = updates,
             fn_givens = [(self_x N, GExpr train_set_x), (self_y N, GExpr train_set_y),
                          (self_is_train N, GExpr (Int32 1))] \<rparr>,
          \<lparr> fn_inputs = [], fn_outputs = errs, fn_updates = [],
             fn_givens = [(self_x N, GExpr valid_set_x), (self_y N, GExpr valid_set_y),
                          (self_is_train N, GExpr (Int32 0))] \<rparr>))))))"

section \<open>Calling a compiled function\<close>

text \<open>
  What a compiled function computes is the tensor library's business. The model fixes only
  what the library documents for every function: the output and all update expressions are
  evaluated in the state before the call, under the givens and the input values, and then
  every shared variable with an update receives its new value while all others keep theirs.
  Addition, subtraction and multiplication are interpreted by three arbitrary operations
  (so nothing is assumed about floating-point arithmetic), a shared variable by its current
  value, an input variable by the value passed, and every other node by an arbitrary
  function of the node, the bindings and the state.
\<close>

record ('r, 'v) env =
  env_givens :: "(expr \<times> 'r given) list"
  env_inputs :: "(expr \<times> 'v) list"

record ('r, 'v) interp =
  i_add :: "'v \<Rightarrow> 'v \<Rightarrow> 'v"
  i_sub :: "'v \<Rightarrow> 'v \<Rightarrow> 'v"
  i_mul :: "'v \<Rightarrow> 'v \<Rightarrow> 'v"
  i_node :: "('r, 'v) env \<Rightarrow> (var_id \<Rightarrow> 'v) \<Rightarrow> expr \<Rightarrow> 'v"

fun eval :: "('r, 'v) interp \<Rightarrow> ('r, 'v) env \<Rightarrow> (var_id \<Rightarrow> 'v) \<Rightarrow> expr \<Rightarrow> 'v" where
  "eval I en st (Add e1 e2) = i_add I (eval I en st e1) (eval I en st e2)"
| "eval I en st (Sub e1 e2) = i_sub I (eval I en st e1) (eval I en st e2)"
| "eval I en st (Mul e1 e2) = i_mul I (eval I en st e1) (eval I en st e2)"
| "eval I en st (SharedVar s) = st (sid s)"
| "eval I en st (Var nm k) =
     (case map_of (env_inputs en) (Var nm k) of Some v \<Rightarrow> v | None \<Rightarrow> i_node I en st (Var nm k))"
| "eval I en st e = i_node I en st e"

definition call_function :: "('r, 'v) interp \<Rightarrow> 'r tfunction \<Rightarrow> 'v list \<Rightarrow> (var_id \<Rightarrow> 'v) \<Rightarrow>
    'v \<times> (var_id \<Rightarrow> 'v)" where
  "call_function I fn vals st =
     (let en = \<lparr> env_givens = fn_givens fn, env_inputs = zip (fn_inputs fn) vals \<rparr>
      in (eval I en st (fn_outputs fn),
          (\<lambda>k. case map_of (map (\<lambda>(s, e). (sid s, e)) (fn_updates fn)) k of
                  None \<Rightarrow> st k
                | Some e \<Rightarrow> eval I en st e)))"

section \<open>The prediction methods\<close>




section \<open>Notions used in the statements\<close>

text \<open>The tags for which the chain of line 126 to 155 has a branch.\<close>

definition supported_types :: "string list" where
  "supported_types =
     [''TANH'', ''SIGMOID'', ''SOFTMAX'', ''RELU'', ''RESU'', ''TANHE'', ''SIGMOIDE'',
      ''TANH_LHUC'', ''SLSTM'', ''SLSTME'', ''SLSTMD'', ''SGRU'', ''GRU'', ''LSTM'', ''LSTME'',
      ''LSTMD'', ''BSLSTM'', ''BSLSTME'', ''BLSTM'', ''BLSTME'', ''RNN'', ''RNNE'', ''RNND'',
      ''LSTM_LHUC'']"

text \<open>
  The table of tags and layer classes as the specification lists it, with the activation a
  general layer receives.
\<close>

definition class_of_tag :: "(string \<times> layer_class \<times> activation option) list" where
  "class_of_tag =
     [(''TANH'', GeneralLayer, Some (ActName ''tanh'')),
      (''SIGMOID'', GeneralLayer, Some (ActName ''sigmoid'')),
      (''SOFTMAX'', GeneralLayer, Some (ActName ''softmax'')),
      (''RELU'', GeneralLayer, Some (ActName ''relu'')),
      (''RESU'', GeneralLayer, Some (ActName ''resu'')),
      (''SLSTM'', SimplifiedLstm, None), (''SLSTME'', SimplifiedLstm, None),
      (''SLSTMD'', SimplifiedLstmDecoder, None),
      (''SGRU'', SimplifiedGRU, None),
      (''GRU'', GatedRecurrentUnit, None),
      (''LSTM'', VanillaLstm, None), (''LSTME'', VanillaLstm, None),
      (''LSTMD'', VanillaLstmDecoder, None),
      (''BSLSTM'', BidirectionSLstm, None), (''BSLSTME'', BidirectionSLstm, None),
      (''BLSTM'', BidirectionLstm, None), (''BLSTME'', BidirectionLstm, None),
      (''RNN'', VanillaRNN, None), (''RNNE'', VanillaRNN, None),
      (''RNND'', VanillaRNNDecoder, None),
      (''TANH_LHUC'', SigmoidLayer_LHUC, Some ActTanh),
      (''LSTM_LHUC'', VanillaLstm_LHUC, None)]"

text \<open>
  The tag that \<^verbatim>\<open>hidden_layer_type[i-1]\<close> reads in iteration \<open>i\<close>: the last one when
  \<open>i = 0\<close>. Iteration \<open>i\<close> runs the encoder block when that tag is an encoder variant.
\<close>

definition prev_tag :: "args \<Rightarrow> nat \<Rightarrow> string" where
  "prev_tag a i =
     hidden_layer_type a ! (if i = 0 then length (hidden_layer_type a) - 1 else i - 1)"

definition enc_at :: "args \<Rightarrow> nat \<Rightarrow> bool" where
  "enc_at a i = (prev_tag a i \<in> set Encoder_variants)"

text \<open>The number of iterations before \<open>i\<close> that run the encoder block.\<close>

definition enc_count :: "args \<Rightarrow> nat \<Rightarrow> nat" where
  "enc_count a i = length (filter (enc_at a) [0 ..< i])"

text \<open>Width and input of layer \<open>i\<close> before the encoder block, given the layers built.\<close>

definition base_w :: "args \<Rightarrow> nat \<Rightarrow> int" where
  "base_w a i =
     (if i = 0 then n_in a
      else if hidden_layer_type a ! (i - 1) \<in> set BLSTM_variants
           then hidden_layer_size a ! (i - 1) * 2
           else hidden_layer_size a ! (i - 1))"

definition base_in :: "args \<Rightarrow> layer list \<Rightarrow> nat \<Rightarrow> expr" where
  "base_in a ls i = (if i = 0 then x_var a else Output (ls ! (i - 1)))"

text \<open>
  The segment length iteration \<open>i\<close> computes, and where the duration slices end after
  \<open>i\<close> iterations when every encoder block advances by its segment length.
\<close>

definition seg_len :: "args \<Rightarrow> layer list \<Rightarrow> nat \<Rightarrow> expr" where
  "seg_len a ls i = FloorDiv (Size (base_in a ls i)) (PyInt (base_w a i))"

fun seg_end :: "args \<Rightarrow> layer list \<Rightarrow> nat \<Rightarrow> expr" where
  "seg_end a ls 0 = PyInt 0"
| "seg_end a ls (Suc j) =
     (if enc_at a j then Add (seg_end a ls j) (seg_len a ls j) else seg_end a ls j)"

definition loop_upto :: "ext \<Rightarrow> args \<Rightarrow> nat \<Rightarrow> error + lstate" where
  "loop_upto E a n = layer_loop E a [0 ..< n] init_lstate"

text \<open>
  No encoder block of the first \<open>m\<close> iterations fails: where one runs, \<^verbatim>\<open>self.d\<close> and
  \<^verbatim>\<open>self.f\<close> exist and, for \<^verbatim>\<open>'HED'\<close>, \<^verbatim>\<open>MLU_div_lengths\<close> has the two entries
  it reads.
\<close>

definition seq2seq_ok :: "args \<Rightarrow> nat \<Rightarrow> bool" where
  "seq2seq_ok a m =
     (\<forall>j < m. enc_at a j \<longrightarrow>
        network_type a = ''S2S'' \<and>
        (ed_type a = ''HED'' \<longrightarrow> enc_count a j + 1 < length (MLU_div_lengths a)))"

definition supported_output :: "args \<Rightarrow> bool" where
  "supported_output a =
     (lower (output_type a) = ''linear'' \<or> lower (output_type a) = ''recurrent'' \<or>
      upper (output_type a) \<in> set list_of_activations)"

text \<open>The update the momentum rule writes for the velocity of a parameter.\<close>

definition sgd_upd :: "expr \<Rightarrow> shared \<Rightarrow> expr" where
  "sgd_upd cost p = Sub (Mul mom_var (SharedVar (updates_var p))) (Mul lr_var (Grad cost p))"

definition sgd_entries :: "int \<Rightarrow> expr \<Rightarrow> nat \<times> shared \<Rightarrow> (shared \<times> expr) list" where
  "sgd_entries fz cost ip =
     (updates_var (snd ip), sgd_upd cost (snd ip)) #
     (if fz \<le> int (fst ip) then [(snd ip, Add (SharedVar (snd ip)) (sgd_upd cost (snd ip)))]
      else [])"

text \<open>The parameters \<^verbatim>\<open>build_finetune_functions\<close> takes gradients of.\<close>

definition trained_params :: "net \<Rightarrow> bool \<Rightarrow> shared list" where
  "trained_params N use_lhuc =
     (if use_lhuc then filter (\<lambda>p. sname p = ''c'') (self_params N) else self_params N)"

text \<open>The number of parameters of the first \<open>layer_index\<close> hidden layers.\<close>

definition frozen_count :: "ext \<Rightarrow> net \<Rightarrow> int \<Rightarrow> int" where
  "frozen_count E N layer_index =
     int (sum_list (map (\<lambda>l. length (params_of E (self_rnn_layers N ! l)))
                     [0 ..< nat layer_index]))"

text \<open>The environment in which a training step evaluates its expressions.\<close>

definition train_env :: "'r tfunction \<Rightarrow> 'v \<Rightarrow> 'v \<Rightarrow> ('r, 'v) env" where
  "train_env fn lr mom =
     \<lparr> env_givens = fn_givens fn, env_inputs = [(lr_var, lr), (mom_var, mom)] \<rparr>"

text \<open>The parameters of the first \<open>k\<close> hidden layers, in the order of \<^verbatim>\<open>self.params\<close>.\<close>

definition hidden_params :: "ext \<Rightarrow> layer list \<Rightarrow> nat \<Rightarrow> shared list" where
  "hidden_params E L k = concat (map (\<lambda>i. layer_params E (Hidden i) (L ! i)) [0 ..< k])"

section \<open>Concrete networks\<close>

text \<open>
  Layer classes in which a layer has a weight matrix and a bias, and the two LHUC classes a
  scaling vector named \<^verbatim>\<open>c\<close> as well; every output is a matrix.
\<close>

definition ext_example :: ext where
  "ext_example = \<lparr>
     params_of = (\<lambda>l.
       if lclass l = SigmoidLayer_LHUC \<or> lclass l = VanillaLstm_LHUC
       then [(''W'', [nat (l_n_in l), nat (l_size l)]), (''b'', [nat (l_size l)]),
             (''c'', [nat (l_size l)])]
       else [(''W'', [nat (l_n_in l), nat (l_size l)]), (''b'', [nat (l_size l)])]),
     out_ndim = (\<lambda>l. 2) \<rparr>"

definition opt_example :: opt_ext where
  "opt_example = \<lparr> compile_ADAM_train_function = (\<lambda>N gparams lr. []),
                   compile_RPROP_train_function = (\<lambda>N gparams. []) \<rparr>"

text \<open>A feedforward layer and an LSTM under a linear output, all other arguments at
  their defaults.\<close>

definition args_example :: args where
  "args_example = \<lparr> n_in = 3, hidden_layer_size = [4, 5], n_out = 2, L1_reg = 0, L2_reg = 0,
     hidden_layer_type = [''TANH'', ''LSTM''], output_type = ''LINEAR'', network_type = ''S2S'',
     ed_type = ''HED'', dropout_rate = 0, optimizer = ''sgd'', MLU_div_lengths = [],
     loss_function = ''MMSE'', rnn_batch_training = False \<rparr>"

text \<open>Two encoders followed by an LSTM, hierarchical encoding.\<close>

definition args_hed :: args where
  "args_hed = args_example \<lparr> hidden_layer_size := [4, 5, 6],
     hidden_layer_type := [''LSTME'', ''LSTME'', ''LSTM''], MLU_div_lengths := [0, 3, 7] \<rparr>"

text \<open>An encoder as the last hidden layer.\<close>

definition args_last_encoder :: args where
  "args_last_encoder = args_example \<lparr> hidden_layer_type := [''TANH'', ''LSTME''],
     MLU_div_lengths := [0, 3] \<rparr>"

definition args_other_ed :: args where
  "args_other_ed = args_last_encoder \<lparr> ed_type := ''NONE'' \<rparr>"

text \<open>An unknown tag first and an encoder last, everything else at its default.\<close>

definition args_unknown_tag :: args where
  "args_unknown_tag = args_example \<lparr> hidden_layer_size := [4, 4],
     hidden_layer_type := [''FOO'', ''LSTME''] \<rparr>"

definition args_plain_unknown_tag :: args where
  "args_plain_unknown_tag = args_example \<lparr> hidden_layer_type := [''TANH'', ''FOO''] \<rparr>"

definition args_unknown_output :: args where
  "args_unknown_output = args_example \<lparr> output_type := ''FOO'' \<rparr>"

definition args_unknown_optimizer :: args where
  "args_unknown_optimizer = args_example \<lparr> optimizer := ''FOO'' \<rparr>"

definition args_short :: args where
  "args_short = args_example \<lparr> hidden_layer_size := [4] \<rparr>"


definition args_cce :: args where
  "args_cce = args_example \<lparr> loss_function := ''CCE'' \<rparr>"

definition args_hinge :: args where
  "args_hinge = args_example \<lparr> loss_function := ''Hinge'' \<rparr>"

definition train_data :: "expr \<times> expr" where
  "train_data = (Var ''train_set_x'' Matrix, Var ''train_set_y'' Matrix)"

definition valid_data :: "expr \<times> expr" where
  "valid_data = (Var ''valid_set_x'' Matrix, Var ''valid_set_y'' Matrix)"

text \<open>Integer arithmetic, with every gradient and every other node evaluating to 5.\<close>

definition interp_example :: "(unit, int) interp" where
  "interp_example = \<lparr> i_add = (+), i_sub = (-), i_mul = (*), i_node = (\<lambda>en st e. 5) \<rparr>"

definition store_example :: "var_id \<Rightarrow> int" where
  "store_example k = 1"

text \<open>The networks the constructor returns for some of these arguments, and the training
  function built for the LHUC network with one frozen layer.\<close>

definition net_hed :: net where
  "net_hed = projr (init ext_example args_hed)"

definition net_other_ed :: net where
  "net_other_ed = projr (init ext_example args_other_ed)"




text \<open>The default network, and the functions built for it with one frozen layer.\<close>

definition net_example :: net where
  "net_example = projr (init ext_example args_example)"

definition train_frozen :: "unit tfunction" where
  "train_frozen =
     fst (projr (build_finetune_functions ext_example opt_example net_example
                   train_data valid_data False 1))"

definition valid_frozen :: "unit tfunction" where
  "valid_frozen =
     snd (projr (build_finetune_functions ext_example opt_example net_example
                   train_data valid_data False 1))"

section \<open>The layer loop\<close>

lemma Inr_projr: "\<not> isl r \<Longrightarrow> r = Inr (projr r)"
  by (cases r) simp_all

lemma bindE_Inr_iff: "bindE m k = Inr r \<longleftrightarrow> (\<exists>v. m = Inr v \<and> k v = Inr r)"
  by (cases m) (simp_all add: bindE_def)

lemma bindE_Inl_iff: "bindE m k = Inl e \<longleftrightarrow> (m = Inl e \<or> (\<exists>v. m = Inr v \<and> k v = Inl e))"
  by (cases m) (simp_all add: bindE_def)

lemma bindE_Inr [simp]: "bindE (Inr v) k = k v"
  by (simp add: bindE_def)

lemma bindE_Inl [simp]: "bindE (Inl e) k = Inl e"
  by (simp add: bindE_def)

lemma py_getitem_nat: "i < length xs \<Longrightarrow> py_getitem xs (int i) = Inr (xs ! i)"
  by (simp add: py_getitem_def)

lemma py_getitem_pred: "0 < i \<Longrightarrow> i \<le> length xs \<Longrightarrow> py_getitem xs (int i - 1) = Inr (xs ! (i - 1))"
  by (simp add: py_getitem_def nat_diff_distrib')

lemma py_getitem_last: "xs \<noteq> [] \<Longrightarrow> py_getitem xs (- 1) = Inr (last xs)"
  by (simp add: py_getitem_def last_conv_nth Suc_leI)

lemma py_getitem_Inl: "py_getitem xs i = Inl e \<Longrightarrow> e = IndexError"
  by (auto simp: py_getitem_def split: if_splits)

lemma layer_loop_append:
  "layer_loop E a (xs @ ys) s = bindE (layer_loop E a xs s) (layer_loop E a ys)"
  by (induction xs arbitrary: s) (auto simp: bindE_def split: sum.splits)

lemma layer_loop_Suc:
  "layer_loop E a [0 ..< Suc n] s = bindE (layer_loop E a [0 ..< n] s) (layer_iteration E a n)"
  by (simp add: layer_loop_append bindE_def split: sum.splits)




lemma lower_simps: "lower ''TANH'' = ''tanh''" "lower ''SIGMOID'' = ''sigmoid''" "lower ''SOFTMAX'' = ''softmax''"
  "lower ''RELU'' = ''relu''" "lower ''RESU'' = ''resu''"
  by (simp_all add: lower_def lower_char_def ascii_uppercase_def ascii_lowercase_def)

lemma hidden_layer_of_cases:
  "case hidden_layer_of a t li w h of
     Inr l \<Rightarrow> linput l = li \<and> l_n_in l = w \<and> l_size l = h \<and> t \<in> set supported_types \<and>
       (case map_of class_of_tag t of
          Some (c, act) \<Rightarrow> lclass l = c \<and> l_activation l = act
        | None \<Rightarrow> (t = ''TANHE'' \<or> t = ''SIGMOIDE'') \<and> lclass l = GeneralLayer)
   | Inl e \<Rightarrow> e = SystemExit 1 \<and> t \<notin> set supported_types"
  by (simp add: hidden_layer_of_def Let_def supported_types_def class_of_tag_def
      list_of_activations_def lower_simps)

lemma hidden_layer_of_Inr:
  assumes "hidden_layer_of a t li w h = Inr l"
  shows "linput l = li" "l_n_in l = w" "l_size l = h" "t \<in> set supported_types"
    "case map_of class_of_tag t of
          Some (c, act) \<Rightarrow> lclass l = c \<and> l_activation l = act
        | None \<Rightarrow> (t = ''TANHE'' \<or> t = ''SIGMOIDE'') \<and> lclass l = GeneralLayer"
  using hidden_layer_of_cases [where a=a and t=t and li=li and w=w and h=h] assms by simp_all

lemma hidden_layer_of_Inl:
  assumes "hidden_layer_of a t li w h = Inl e"
  shows "e = SystemExit 1" "t \<notin> set supported_types"
  using hidden_layer_of_cases [where a=a and t=t and li=li and w=w and h=h] assms by simp_all

lemma hidden_layer_of_unsupported:
  "t \<notin> set supported_types \<Longrightarrow> hidden_layer_of a t li w h = Inl (SystemExit 1)"
  using hidden_layer_of_cases [where a=a and t=t and li=li and w=w and h=h] by (cases "hidden_layer_of a t li w h") simp_all

lemma hidden_layer_of_supported:
  "t \<in> set supported_types \<Longrightarrow> \<exists>l. hidden_layer_of a t li w h = Inr l"
  using hidden_layer_of_cases [where a=a and t=t and li=li and w=w and h=h] by (cases "hidden_layer_of a t li w h") simp_all

lemma py_getitem_prev_tag:
  "i < length (hidden_layer_type a) \<Longrightarrow>
     py_getitem (hidden_layer_type a) (int i - 1) = Inr (prev_tag a i)"
  by (cases "i = 0") (simp_all add: py_getitem_def prev_tag_def nat_diff_distrib' Suc_leI)

lemma base_input_size_eq:
  "i < length (hidden_layer_type a) \<Longrightarrow> length (hidden_layer_size a) = length (hidden_layer_type a) \<Longrightarrow>
     base_input_size a i = Inr (base_w a i)"
  by (simp add: base_input_size_def base_w_def py_getitem_pred)

lemma base_layer_input_eq:
  "i \<le> length ls \<Longrightarrow> base_layer_input a ls i = Inr (base_in a ls i)"
  by (simp add: base_layer_input_def base_in_def py_getitem_pred)

lemma py_getitem_MLU:
  "py_getitem xs (int k) = (if k < length xs then Inr (xs ! k) else Inl IndexError)"
  "py_getitem xs (int k + 1) = (if k + 1 < length xs then Inr (xs ! (k + 1)) else Inl IndexError)"
  by (simp_all add: py_getitem_def nat_add_distrib)

lemma seq2seq_eq:
  assumes "i < length (hidden_layer_type a)"
  shows "seq2seq a i li w p k =
     (if enc_at a i then
        (if network_type a \<noteq> ''S2S'' then Inl AttributeError
         else if ed_type a = ''VED'' then
           Inr (Concatenate (EncodedOutput li (Var ''d'' IVector)) (Var ''f'' Matrix) 1, w + 4, p, k)
         else if ed_type a = ''HED'' then
           (if k + 1 < length (MLU_div_lengths a) then
              Inr (Concatenate
                     (EncodedOutput li
                        (Slice (Var ''d'' IVector) p (Add p (FloorDiv (Size li) (PyInt w)))))
                     (Slice2 (Var ''f'' Matrix) (PyInt 0)
                        (SumAll (Slice (Var ''d'' IVector) p (Add p (FloorDiv (Size li) (PyInt w)))))
                        (MLU_div_lengths a ! k) (MLU_div_lengths a ! (k + 1))) 1,
                   w + (MLU_div_lengths a ! (k + 1) - MLU_div_lengths a ! k),
                   Add p (FloorDiv (Size li) (PyInt w)), k + 1)
            else Inl IndexError)
         else Inr (li, w, p, k))
      else Inr (li, w, p, k))"
  unfolding seq2seq_def py_getitem_prev_tag [OF assms]
  by (simp add: enc_at_def d_var_def f_var_def getattr_def py_getitem_MLU Let_def)




lemma loop_upto_0: "loop_upto E a 0 = Inr init_lstate"
  by (simp add: loop_upto_def)

lemma loop_upto_Suc: "loop_upto E a (Suc n) = bindE (loop_upto E a n) (layer_iteration E a n)"
  unfolding loop_upto_def by (rule layer_loop_Suc)

lemma layer_iteration_eq:
  assumes "i < length (hidden_layer_type a)"
    and "length (hidden_layer_size a) = length (hidden_layer_type a)"
    and "length (rnn_layers s) = i"
  shows "layer_iteration E a i s =
     bindE (seq2seq a i (base_in a (rnn_layers s) i) (base_w a i) (prev_seg_end s) (encoder_count s))
       (\<lambda>(li', w', p', k').
     bindE (hidden_layer_of a (hidden_layer_type a ! i) li' w' (hidden_layer_size a ! i)) (\<lambda>l.
     Inr \<lparr> rnn_layers = rnn_layers s @ [l],
           params = params s @ layer_params E (Hidden i) l,
           prev_seg_end = p', encoder_count = k' \<rparr>))"
  using assms
  by (simp add: layer_iteration_def base_input_size_eq base_layer_input_eq py_getitem_nat)

lemma layer_iteration_Inr:
  assumes "layer_iteration E a i s = Inr s'"
    and "i < length (hidden_layer_type a)"
    and "length (hidden_layer_size a) = length (hidden_layer_type a)"
    and "length (rnn_layers s) = i"
  shows "\<exists>l li' w'.
     seq2seq a i (base_in a (rnn_layers s) i) (base_w a i) (prev_seg_end s) (encoder_count s)
       = Inr (li', w', prev_seg_end s', encoder_count s') \<and>
     hidden_layer_of a (hidden_layer_type a ! i) li' w' (hidden_layer_size a ! i) = Inr l \<and>
     rnn_layers s' = rnn_layers s @ [l] \<and>
     params s' = params s @ layer_params E (Hidden i) l"
  using assms(1) unfolding layer_iteration_eq [OF assms(2-4)]
  by (auto simp: bindE_Inr_iff)

lemma loop_upto_length:
  assumes "length (hidden_layer_size a) = length (hidden_layer_type a)"
  shows "n \<le> length (hidden_layer_type a) \<Longrightarrow> loop_upto E a n = Inr s \<Longrightarrow> length (rnn_layers s) = n"
proof (induction n arbitrary: s)
  case 0
  then show ?case by (auto simp: loop_upto_0 init_lstate_def)
next
  case (Suc n)
  from Suc.prems(2) obtain s0 where s0: "loop_upto E a n = Inr s0"
    and it: "layer_iteration E a n s0 = Inr s"
    by (auto simp: loop_upto_Suc bindE_Inr_iff)
  have len: "length (rnn_layers s0) = n" using Suc.IH [OF _ s0] Suc.prems(1) by simp
  from layer_iteration_Inr [OF it _ assms len] Suc.prems(1)
  show ?case using len by auto
qed

lemma loop_upto_prefix:
  assumes "length (hidden_layer_size a) = length (hidden_layer_type a)"
  shows "n \<le> length (hidden_layer_type a) \<Longrightarrow> loop_upto E a n = Inr s \<Longrightarrow> m \<le> n \<Longrightarrow>
    \<exists>s0. loop_upto E a m = Inr s0 \<and> rnn_layers s0 = take m (rnn_layers s) \<and>
      params s0 = take (length (params s0)) (params s)"
proof (induction n arbitrary: s)
  case 0
  then show ?case by (auto simp: loop_upto_0 init_lstate_def)
next
  case (Suc n)
  from Suc.prems(2) obtain s1 where s1: "loop_upto E a n = Inr s1"
    and it: "layer_iteration E a n s1 = Inr s"
    by (auto simp: loop_upto_Suc bindE_Inr_iff)
  have len: "length (rnn_layers s1) = n"
    using loop_upto_length [OF assms _ s1] Suc.prems(1) by simp
  from layer_iteration_Inr [OF it _ assms len] Suc.prems(1)
  obtain l where l: "rnn_layers s = rnn_layers s1 @ [l]"
    "params s = params s1 @ layer_params E (Hidden n) l" by auto
  show ?case
  proof (cases "m = Suc n")
    case True
    have "length (rnn_layers s) = Suc n" using l len by simp
    then show ?thesis using True Suc.prems(2) by auto
  next
    case False
    then have "m \<le> n" using Suc.prems(3) by simp
    from Suc.IH [OF _ s1 this] Suc.prems(1)
    obtain s0 where s0: "loop_upto E a m = Inr s0" "rnn_layers s0 = take m (rnn_layers s1)"
      "params s0 = take (length (params s0)) (params s1)" by auto
    have "length (params s0) \<le> length (params s1)"
      using s0(3) by (metis length_take min.cobounded2 min_def order_refl linorder_le_cases take_all)
    then show ?thesis using s0 l len \<open>m \<le> n\<close> by auto
  qed
qed

text \<open>
  Layer \<open>i\<close> of a finished loop is the layer iteration \<open>i\<close> builds from the state after
  \<open>i\<close> iterations.
\<close>

lemma loop_upto_layer:
  assumes eq: "length (hidden_layer_size a) = length (hidden_layer_type a)"
    and n: "n \<le> length (hidden_layer_type a)"
    and run: "loop_upto E a n = Inr s"
    and i: "i < n"
  shows "\<exists>s0 s1. loop_upto E a i = Inr s0 \<and> layer_iteration E a i s0 = Inr s1 \<and>
      rnn_layers s0 = take i (rnn_layers s) \<and>
      rnn_layers s1 = take i (rnn_layers s) @ [rnn_layers s ! i]"
proof -
  from loop_upto_prefix [OF eq n run, of "Suc i"] i
  obtain s1 where s1: "loop_upto E a (Suc i) = Inr s1" "rnn_layers s1 = take (Suc i) (rnn_layers s)"
    by auto
  from s1(1) obtain s0 where s0: "loop_upto E a i = Inr s0" "layer_iteration E a i s0 = Inr s1"
    by (auto simp: loop_upto_Suc bindE_Inr_iff)
  have "Suc i \<le> length (hidden_layer_type a)" using i n by simp
  from loop_upto_prefix [OF eq this s1(1), of i] s0(1)
  have "rnn_layers s0 = take i (rnn_layers s1)" by auto
  then have t: "rnn_layers s0 = take i (rnn_layers s)" using s1(2) by (simp add: min_def)
  have "length (rnn_layers s) = n" using loop_upto_length [OF eq n run] .
  then have "take (Suc i) (rnn_layers s) = take i (rnn_layers s) @ [rnn_layers s ! i]"
    using i by (simp add: take_Suc_conv_app_nth)
  then show ?thesis using s0 s1 t by auto
qed




lemma init_Inr:
  assumes "init E a = Inr N"
  shows "length (hidden_layer_size a) = length (hidden_layer_type a)"
    and "\<exists>s cost errs. loop_upto E a (length (hidden_layer_type a)) = Inr s \<and>
       final_layer_of E a s = Inr (self_final_layer N, self_params N) \<and>
       loss_of E a (self_final_layer N) = Inr (cost, errs) \<and>
       self_rnn_layers N = rnn_layers s \<and> self_updates N = make_updates (self_params N) \<and>
       self_finetune_cost N = cost \<and> self_errors N = errs"
  using assms
  by (auto simp: init_def loop_upto_def bindE_Inr_iff split: if_splits)

lemma init_example_ok: "\<exists>N. init ext_example args_example = Inr N"
proof -
  have "\<not> isl (init ext_example args_example)" by code_simp
  then show ?thesis by (cases "init ext_example args_example") auto
qed



section \<open>Failures of the constructor\<close>

lemma seq2seq_Inl:
  assumes "i < length (hidden_layer_type a)" and "seq2seq a i li w p k = Inl e"
  shows "e = AttributeError \<or> e = IndexError"
  using assms(2) unfolding seq2seq_eq [OF assms(1)] by (auto split: if_splits)

lemma layer_iteration_Inl:
  assumes "layer_iteration E a i s = Inl e"
    and "i < length (hidden_layer_type a)"
    and "length (hidden_layer_size a) = length (hidden_layer_type a)"
    and "length (rnn_layers s) = i"
  shows "e = AttributeError \<or> e = IndexError \<or> e = SystemExit 1"
  using assms(1) unfolding layer_iteration_eq [OF assms(2-4)]
  by (auto simp: bindE_Inl_iff dest: seq2seq_Inl [OF assms(2)] hidden_layer_of_Inl(1))

lemma loop_upto_Inl:
  assumes "length (hidden_layer_size a) = length (hidden_layer_type a)"
  shows "n \<le> length (hidden_layer_type a) \<Longrightarrow> loop_upto E a n = Inl e \<Longrightarrow>
    e = AttributeError \<or> e = IndexError \<or> e = SystemExit 1"
proof (induction n)
  case 0
  then show ?case by (simp add: loop_upto_0)
next
  case (Suc n)
  from Suc.prems(2) consider "loop_upto E a n = Inl e"
    | s where "loop_upto E a n = Inr s" "layer_iteration E a n s = Inl e"
    by (auto simp: loop_upto_Suc bindE_Inl_iff)
  then show ?case
  proof cases
    case 1
    then show ?thesis using Suc by simp
  next
    case 2
    have "length (rnn_layers s) = n" using loop_upto_length [OF assms _ 2(1)] Suc.prems(1) by simp
    from layer_iteration_Inl [OF 2(2) _ assms this] Suc.prems(1) show ?thesis by simp
  qed
qed

lemma final_layer_of_Inl:
  "final_layer_of E a s = Inl e \<Longrightarrow> e = IndexError \<or> e = SystemExit 1"
  by (auto simp: final_layer_of_def bindE_Inl_iff Let_def dest: py_getitem_Inl split: if_splits)

lemma multiclass_hinge_loss_Inl:
  "multiclass_hinge_loss pn tn p t d = Inl e \<Longrightarrow> e = TypeError"
  by (auto simp: multiclass_hinge_loss_def bindE_Inl_iff Let_def split: if_splits)

lemma loss_of_Inl: "loss_of E a fl = Inl e \<Longrightarrow> e = TypeError"
  by (auto simp: loss_of_def bindE_Inl_iff Let_def dest: multiclass_hinge_loss_Inl split: if_splits)

lemma init_Inl:
  assumes "length (hidden_layer_size a) = length (hidden_layer_type a)" and "init E a = Inl e"
  shows "e = AttributeError \<or> e = IndexError \<or> e = SystemExit 1 \<or> e = TypeError"
proof -
  from assms have "bindE (loop_upto E a (length (hidden_layer_type a))) (\<lambda>s.
        bindE (final_layer_of E a s) (\<lambda>(fl, ps).
        bindE (loss_of E a fl) (\<lambda>(cost, errs). Inr undefined))) = Inl e"
    by (auto simp: init_def loop_upto_def bindE_def split: sum.splits prod.splits)
  then show ?thesis
    using loop_upto_Inl [OF assms(1), of "length (hidden_layer_type a)" E e]
    by (auto simp: bindE_Inl_iff dest: final_layer_of_Inl loss_of_Inl)
qed

text \<open>
  Claim C10. The constructor raises \<^verbatim>\<open>AssertionError\<close> whenever the two lists differ in
  length. When they have the same length it never raises \<^verbatim>\<open>AssertionError\<close>, and a network
  it returns has exactly that many hidden layers.
\<close>

theorem length_assertion:
  "(length (hidden_layer_size a) \<noteq> length (hidden_layer_type a) \<longrightarrow>
      init E a = Inl AssertionError) \<and>
   (length (hidden_layer_size a) = length (hidden_layer_type a) \<longrightarrow>
      init E a \<noteq> Inl AssertionError \<and>
      (\<forall>N. init E a = Inr N \<longrightarrow> length (self_rnn_layers N) = length (hidden_layer_size a)))"
proof (intro conjI impI allI)
  assume "length (hidden_layer_size a) \<noteq> length (hidden_layer_type a)"
  then show "init E a = Inl AssertionError" by (simp add: init_def)
next
  assume eq: "length (hidden_layer_size a) = length (hidden_layer_type a)"
  show "init E a \<noteq> Inl AssertionError" using init_Inl [OF eq] by auto
  fix N assume N: "init E a = Inr N"
  from init_Inr [OF N] obtain s where
    run: "loop_upto E a (length (hidden_layer_type a)) = Inr s"
    and ls: "self_rnn_layers N = rnn_layers s" by auto
  show "length (self_rnn_layers N) = length (hidden_layer_size a)"
    using loop_upto_length [OF eq _ run] ls eq by simp
qed

theorem length_assertion_witness:
  "init ext_example args_short = Inl AssertionError \<and>
   init ext_example args_example \<noteq> Inl AssertionError \<and>
   (\<exists>N. init ext_example args_example = Inr N \<and> length (self_rnn_layers N) = 2)"
proof -
  have short: "length (hidden_layer_size args_short) \<noteq> length (hidden_layer_type args_short)"
    by (simp add: args_short_def args_example_def)
  have ok: "length (hidden_layer_size args_example) = length (hidden_layer_type args_example)"
    and two: "length (hidden_layer_size args_example) = 2"
    by (simp_all add: args_example_def)
  from init_example_ok obtain N where N: "init ext_example args_example = Inr N" ..
  from length_assertion [of args_short ext_example] short
  have 1: "init ext_example args_short = Inl AssertionError" by blast
  from length_assertion [of args_example ext_example] ok N two
  have 2: "init ext_example args_example \<noteq> Inl AssertionError"
    and 3: "length (self_rnn_layers N) = 2" by auto
  from 1 2 3 N show ?thesis by blast
qed

section \<open>Wiring of the layers\<close>

lemma base_in_append: "i \<le> length ls \<Longrightarrow> base_in a (ls @ ys) i = base_in a ls i"
  by (cases i) (simp_all add: base_in_def nth_append)

lemma seg_len_append: "i \<le> length ls \<Longrightarrow> seg_len a (ls @ ys) i = seg_len a ls i"
  by (simp add: seg_len_def base_in_append)

lemma seg_end_append: "m \<le> length ls \<Longrightarrow> seg_end a (ls @ ys) m = seg_end a ls m"
  by (induction m) (simp_all add: seg_len_append)

lemma base_in_take: "i \<le> length ls \<Longrightarrow> base_in a (take i ls) i = base_in a ls i"
  using base_in_append [of i "take i ls" a "drop i ls"] by simp

lemma seg_end_take: "m \<le> length ls \<Longrightarrow> seg_end a (take m ls) m = seg_end a ls m"
  using seg_end_append [of m "take m ls" a "drop m ls"] by simp

lemma enc_count_Suc: "enc_count a (Suc n) = (if enc_at a n then Suc (enc_count a n) else enc_count a n)"
  by (simp add: enc_count_def)

lemma loop_upto_hed:
  assumes eq: "length (hidden_layer_size a) = length (hidden_layer_type a)"
    and hed: "ed_type a = ''HED''"
  shows "n \<le> length (hidden_layer_type a) \<Longrightarrow> loop_upto E a n = Inr s \<Longrightarrow>
    prev_seg_end s = seg_end a (rnn_layers s) n \<and> encoder_count s = enc_count a n"
proof (induction n arbitrary: s)
  case 0
  then show ?case by (auto simp: loop_upto_0 init_lstate_def enc_count_def)
next
  case (Suc n)
  from Suc.prems(2) obtain s1 where s1: "loop_upto E a n = Inr s1"
    and it: "layer_iteration E a n s1 = Inr s"
    by (auto simp: loop_upto_Suc bindE_Inr_iff)
  have n: "n < length (hidden_layer_type a)" using Suc.prems(1) by simp
  have len: "length (rnn_layers s1) = n" using loop_upto_length [OF eq _ s1] n by simp
  have ih: "prev_seg_end s1 = seg_end a (rnn_layers s1) n" "encoder_count s1 = enc_count a n"
    using Suc.IH [OF _ s1] n by simp_all
  from layer_iteration_Inr [OF it n eq len] obtain l li' w' where
    sq: "seq2seq a n (base_in a (rnn_layers s1) n) (base_w a n) (prev_seg_end s1) (encoder_count s1)
           = Inr (li', w', prev_seg_end s, encoder_count s)"
    and ls: "rnn_layers s = rnn_layers s1 @ [l]" by auto
  have e: "seg_end a (rnn_layers s) n = seg_end a (rnn_layers s1) n"
    "seg_len a (rnn_layers s) n = seg_len a (rnn_layers s1) n"
    using ls len by (simp_all add: seg_end_append seg_len_append)
  show ?case
  proof (cases "enc_at a n")
    case True
    with sq have "prev_seg_end s = Add (prev_seg_end s1) (seg_len a (rnn_layers s1) n)"
      and "encoder_count s = Suc (encoder_count s1)"
      unfolding seq2seq_eq [OF n] by (auto simp: hed seg_len_def split: if_splits)
    then show ?thesis using True by (simp add: ih e enc_count_Suc)
  next
    case False
    with sq have "prev_seg_end s = prev_seg_end s1" and "encoder_count s = encoder_count s1"
      unfolding seq2seq_eq [OF n] by auto
    then show ?thesis using False by (simp add: ih e enc_count_Suc)
  qed
qed

lemma loop_upto_params:
  assumes eq: "length (hidden_layer_size a) = length (hidden_layer_type a)"
  shows "n \<le> length (hidden_layer_type a) \<Longrightarrow> loop_upto E a n = Inr s \<Longrightarrow>
    params s = concat (map (\<lambda>i. layer_params E (Hidden i) (rnn_layers s ! i)) [0 ..< n])"
proof (induction n arbitrary: s)
  case 0
  then show ?case by (auto simp: loop_upto_0 init_lstate_def)
next
  case (Suc n)
  from Suc.prems(2) obtain s1 where s1: "loop_upto E a n = Inr s1"
    and it: "layer_iteration E a n s1 = Inr s"
    by (auto simp: loop_upto_Suc bindE_Inr_iff)
  have n: "n < length (hidden_layer_type a)" using Suc.prems(1) by simp
  have len: "length (rnn_layers s1) = n" using loop_upto_length [OF eq _ s1] n by simp
  from layer_iteration_Inr [OF it n eq len] obtain l where
    ls: "rnn_layers s = rnn_layers s1 @ [l]"
    and ps: "params s = params s1 @ layer_params E (Hidden n) l" by auto
  have "params s1 = concat (map (\<lambda>i. layer_params E (Hidden i) (rnn_layers s1 ! i)) [0 ..< n])"
    using Suc.IH [OF _ s1] n by simp
  also have "\<dots> = concat (map (\<lambda>i. layer_params E (Hidden i) (rnn_layers s ! i)) [0 ..< n])"
    using len ls by (intro arg_cong [where f = concat] map_cong) (auto simp: nth_append)
  finally show ?case using ps ls len by (simp add: nth_append)
qed

lemma init_fields:
  assumes "init E a = Inr N"
  shows "self_x N = x_var a" "self_y N = y_var a" "self_d N = d_var a" "self_f N = f_var a"
    "self_is_train N = is_train_var" "self_optimizer N = optimizer a"
    "self_n_out N = n_out a" "self_n_in N = n_in a"
  using assms by (auto simp: init_def bindE_Inr_iff split: if_splits)

text \<open>
  What the encoder block of iteration \<open>i\<close> received and returned, read off the layer list of
  the finished network.
\<close>

lemma init_layer:
  assumes N: "init E a = Inr N" and i: "i < length (hidden_layer_type a)"
  shows "\<exists>p k p' k'.
     seq2seq a i (base_in a (self_rnn_layers N) i) (base_w a i) p k
       = Inr (linput (self_rnn_layers N ! i), l_n_in (self_rnn_layers N ! i), p', k') \<and>
     (ed_type a = ''HED'' \<longrightarrow> p = seg_end a (self_rnn_layers N) i \<and> k = enc_count a i)"
proof -
  let ?n = "length (hidden_layer_type a)"
  from init_Inr [OF N] obtain s where
    eq: "length (hidden_layer_size a) = ?n" and run: "loop_upto E a ?n = Inr s"
    and ls: "self_rnn_layers N = rnn_layers s" by auto
  have len: "length (rnn_layers s) = ?n" using loop_upto_length [OF eq _ run] by simp
  from loop_upto_layer [OF eq _ run i] obtain s0 s1 where
    r0: "loop_upto E a i = Inr s0" and
    it: "layer_iteration E a i s0 = Inr s1" and l0: "rnn_layers s0 = take i (rnn_layers s)"
    and l1: "rnn_layers s1 = take i (rnn_layers s) @ [rnn_layers s ! i]" by auto
  have len0: "length (rnn_layers s0) = i" using l0 len i by simp
  from layer_iteration_Inr [OF it i eq len0] l0 l1 obtain li' w' where
    sq: "seq2seq a i (base_in a (take i (rnn_layers s)) i) (base_w a i) (prev_seg_end s0)
           (encoder_count s0) = Inr (li', w', prev_seg_end s1, encoder_count s1)"
    and hl: "hidden_layer_of a (hidden_layer_type a ! i) li' w' (hidden_layer_size a ! i)
           = Inr (rnn_layers s ! i)"
    by auto
  have b: "base_in a (take i (rnn_layers s)) i = base_in a (rnn_layers s) i"
    using i len by (simp add: base_in_take)
  have inv: "ed_type a = ''HED'' \<longrightarrow>
      prev_seg_end s0 = seg_end a (rnn_layers s) i \<and> encoder_count s0 = enc_count a i"
  proof
    assume hed: "ed_type a = ''HED''"
    from loop_upto_hed [OF eq hed _ r0] i
    have "prev_seg_end s0 = seg_end a (rnn_layers s0) i \<and> encoder_count s0 = enc_count a i"
      by simp
    then show "prev_seg_end s0 = seg_end a (rnn_layers s) i \<and> encoder_count s0 = enc_count a i"
      using l0 i len by (simp add: seg_end_take)
  qed
  from hidden_layer_of_Inr(1,2) [OF hl] sq b inv show ?thesis
    unfolding ls by auto
qed

lemma final_layer_of_Inr:
  assumes "final_layer_of E a s = Inr (fl, ps)"
    and "hidden_layer_type a \<noteq> []" and "hidden_layer_size a \<noteq> []" and "rnn_layers s \<noteq> []"
  shows "if last (hidden_layer_type a) \<in> set Decoder_variants
      then fl = last (rnn_layers s) \<and> ps = params s
      else linput fl = Output (last (rnn_layers s)) \<and>
           l_n_in fl =
             (if last (hidden_layer_type a) \<in> set BLSTM_variants
              then last (hidden_layer_size a) * 2 else last (hidden_layer_size a)) \<and>
           l_size fl = n_out a \<and> supported_output a \<and>
           ps = params s @ layer_params E FinalLayer fl"
  using assms(1) unfolding final_layer_of_def
  by (auto simp: py_getitem_last assms(2-4) Let_def bindE_Inr_iff supported_output_def
      split: if_splits)

lemma init_final:
  assumes N: "init E a = Inr N"
  shows "hidden_layer_type a \<noteq> []"
    and "if last (hidden_layer_type a) \<in> set Decoder_variants
      then self_final_layer N = last (self_rnn_layers N) \<and>
           self_params N = concat (map (\<lambda>i. layer_params E (Hidden i) (self_rnn_layers N ! i))
             [0 ..< length (hidden_layer_type a)])
      else linput (self_final_layer N) = Output (last (self_rnn_layers N)) \<and>
           l_n_in (self_final_layer N) =
             (if last (hidden_layer_type a) \<in> set BLSTM_variants
              then last (hidden_layer_size a) * 2 else last (hidden_layer_size a)) \<and>
           l_size (self_final_layer N) = n_out a \<and> supported_output a \<and>
           self_params N = concat (map (\<lambda>i. layer_params E (Hidden i) (self_rnn_layers N ! i))
             [0 ..< length (hidden_layer_type a)]) @
             layer_params E FinalLayer (self_final_layer N)"
proof -
  let ?n = "length (hidden_layer_type a)"
  from init_Inr [OF N] obtain s where
    eq: "length (hidden_layer_size a) = ?n" and run: "loop_upto E a ?n = Inr s"
    and fl: "final_layer_of E a s = Inr (self_final_layer N, self_params N)"
    and ls: "self_rnn_layers N = rnn_layers s" by auto
  have len: "length (rnn_layers s) = ?n" using loop_upto_length [OF eq _ run] by simp
  show ne: "hidden_layer_type a \<noteq> []"
  proof
    assume "hidden_layer_type a = []"
    then have "hidden_layer_size a = []" using eq by simp
    then have "final_layer_of E a s = Inl IndexError"
      by (simp add: final_layer_of_def py_getitem_def)
    with fl show False by simp
  qed
  then have ne2: "hidden_layer_size a \<noteq> []" "rnn_layers s \<noteq> []" using eq len by auto
  have ps: "params s = concat (map (\<lambda>i. layer_params E (Hidden i) (rnn_layers s ! i)) [0 ..< ?n])"
    using loop_upto_params [OF eq _ run] by simp
  from final_layer_of_Inr [OF fl ne ne2]
  show "if last (hidden_layer_type a) \<in> set Decoder_variants
      then self_final_layer N = last (self_rnn_layers N) \<and>
           self_params N = concat (map (\<lambda>i. layer_params E (Hidden i) (self_rnn_layers N ! i))
             [0 ..< length (hidden_layer_type a)])
      else linput (self_final_layer N) = Output (last (self_rnn_layers N)) \<and>
           l_n_in (self_final_layer N) =
             (if last (hidden_layer_type a) \<in> set BLSTM_variants
              then last (hidden_layer_size a) * 2 else last (hidden_layer_size a)) \<and>
           l_size (self_final_layer N) = n_out a \<and> supported_output a \<and>
           self_params N = concat (map (\<lambda>i. layer_params E (Hidden i) (self_rnn_layers N ! i))
             [0 ..< length (hidden_layer_type a)]) @
             layer_params E FinalLayer (self_final_layer N)"
    unfolding ls ps by (simp split: if_splits)
qed

section \<open>Inputs and widths of the layers\<close>

lemma init_hed_ok: "\<exists>N. init ext_example args_hed = Inr N"
proof -
  have "\<not> isl (init ext_example args_hed)" by code_simp
  then show ?thesis by (cases "init ext_example args_hed") auto
qed

lemma seq2seq_Inr:
  assumes "i < length (hidden_layer_type a)"
    and "seq2seq a i b w p k = Inr (li, wi, p', k')"
  shows "if enc_at a i \<and> ed_type a = ''VED'' then
           li = Concatenate (EncodedOutput b (Var ''d'' IVector)) (Var ''f'' Matrix) 1 \<and>
           wi = w + 4 \<and> p' = p \<and> k' = k \<and> network_type a = ''S2S''
         else if enc_at a i \<and> ed_type a = ''HED'' then
           li = Concatenate
                  (EncodedOutput b
                     (Slice (Var ''d'' IVector) p (Add p (FloorDiv (Size b) (PyInt w)))))
                  (Slice2 (Var ''f'' Matrix) (PyInt 0)
                     (SumAll (Slice (Var ''d'' IVector) p (Add p (FloorDiv (Size b) (PyInt w)))))
                     (MLU_div_lengths a ! k) (MLU_div_lengths a ! (k + 1))) 1 \<and>
           wi = w + (MLU_div_lengths a ! (k + 1) - MLU_div_lengths a ! k) \<and>
           p' = Add p (FloorDiv (Size b) (PyInt w)) \<and> k' = k + 1 \<and>
           k + 1 < length (MLU_div_lengths a) \<and> network_type a = ''S2S''
         else li = b \<and> wi = w \<and> p' = p \<and> k' = k"
  using assms(2) unfolding seq2seq_eq [OF assms(1)] by (auto split: if_splits)

lemma args_hed_simps:
  "hidden_layer_type args_hed = [''LSTME'', ''LSTME'', ''LSTM'']"
  "hidden_layer_size args_hed = [4, 5, 6]" "MLU_div_lengths args_hed = [0, 3, 7]"
  "n_in args_hed = 3" "ed_type args_hed = ''HED''" "network_type args_hed = ''S2S''"
  by (simp_all add: args_hed_def args_example_def)

lemma enc_at_hed: "\<not> enc_at args_hed 0" "enc_at args_hed (Suc 0)" "enc_at args_hed (Suc (Suc 0))"
  by (simp_all add: enc_at_def prev_tag_def args_hed_simps Encoder_variants_def)

lemma enc_count_0: "enc_count a 0 = 0"
  by (simp add: enc_count_def)

lemma enc_count_hed: "enc_count args_hed (Suc 0) = 0" "enc_count args_hed (Suc (Suc 0)) = Suc 0"
  by (simp_all add: enc_count_Suc enc_at_hed enc_count_0)

text \<open>
  Claim C2, amended. Before the encoder block, layer 0 receives the network input \<open>x\<close> with
  width \<^verbatim>\<open>n_in\<close> and layer \<open>i \<ge> 1\<close> the output of layer \<open>i - 1\<close> with width
  \<^verbatim>\<open>hidden_layer_size[i-1]\<close>, doubled after a bidirectional layer. When the tag read as
  \<^verbatim>\<open>hidden_layer_type[i-1]\<close> is an encoder variant, \<^verbatim>\<open>'VED'\<close> replaces the input by
  the encoded output concatenated with \<open>f\<close> and adds 4 to the width, and \<^verbatim>\<open>'HED'\<close>
  replaces it by the encoded segment concatenated with a column block of \<open>f\<close> and adds the
  width of that block; any other \<^verbatim>\<open>ed_type\<close> leaves both as they were. The output layer,
  unless the last hidden layer is a decoder and serves as output itself, receives the output
  of the last hidden layer with the width given by the same doubling rule.
\<close>

theorem layer_inputs_and_widths:
  assumes "init E a = Inr N" and "i < length (hidden_layer_type a)"
  shows
    "(let L = self_rnn_layers N;
          b = (if i = 0 then self_x N else Output (L ! (i - 1)));
          w = (if i = 0 then n_in a
               else if hidden_layer_type a ! (i - 1) \<in> set BLSTM_variants
                    then hidden_layer_size a ! (i - 1) * 2
                    else hidden_layer_size a ! (i - 1));
          k = enc_count a i
      in if enc_at a i \<and> ed_type a = ''VED'' then
           linput (L ! i) = Concatenate (EncodedOutput b (Var ''d'' IVector)) (Var ''f'' Matrix) 1 \<and>
           l_n_in (L ! i) = w + 4
         else if enc_at a i \<and> ed_type a = ''HED'' then
           (\<exists>seg. linput (L ! i) =
              Concatenate (EncodedOutput b seg)
                (Slice2 (Var ''f'' Matrix) (PyInt 0) (SumAll seg)
                   (MLU_div_lengths a ! k) (MLU_div_lengths a ! (k + 1))) 1) \<and>
           l_n_in (L ! i) = w + (MLU_div_lengths a ! (k + 1) - MLU_div_lengths a ! k)
         else linput (L ! i) = b \<and> l_n_in (L ! i) = w) \<and>
     (if last (hidden_layer_type a) \<in> set Decoder_variants
      then self_final_layer N = last (self_rnn_layers N)
      else linput (self_final_layer N) = Output (last (self_rnn_layers N)) \<and>
           l_n_in (self_final_layer N) =
             (if last (hidden_layer_type a) \<in> set BLSTM_variants
              then last (hidden_layer_size a) * 2 else last (hidden_layer_size a)))"
proof -
  from init_layer [OF assms] obtain p k p' k' where
    sq: "seq2seq a i (base_in a (self_rnn_layers N) i) (base_w a i) p k
       = Inr (linput (self_rnn_layers N ! i), l_n_in (self_rnn_layers N ! i), p', k')"
    and hed: "ed_type a = ''HED'' \<longrightarrow> p = seg_end a (self_rnn_layers N) i \<and> k = enc_count a i"
    by blast
  have x: "self_x N = x_var a" using init_fields(1) [OF assms(1)] .
  have 1: "(let L = self_rnn_layers N;
          b = (if i = 0 then self_x N else Output (L ! (i - 1)));
          w = (if i = 0 then n_in a
               else if hidden_layer_type a ! (i - 1) \<in> set BLSTM_variants
                    then hidden_layer_size a ! (i - 1) * 2
                    else hidden_layer_size a ! (i - 1));
          k = enc_count a i
      in if enc_at a i \<and> ed_type a = ''VED'' then
           linput (L ! i) = Concatenate (EncodedOutput b (Var ''d'' IVector)) (Var ''f'' Matrix) 1 \<and>
           l_n_in (L ! i) = w + 4
         else if enc_at a i \<and> ed_type a = ''HED'' then
           (\<exists>seg. linput (L ! i) =
              Concatenate (EncodedOutput b seg)
                (Slice2 (Var ''f'' Matrix) (PyInt 0) (SumAll seg)
                   (MLU_div_lengths a ! k) (MLU_div_lengths a ! (k + 1))) 1) \<and>
           l_n_in (L ! i) = w + (MLU_div_lengths a ! (k + 1) - MLU_div_lengths a ! k)
         else linput (L ! i) = b \<and> l_n_in (L ! i) = w)"
    using seq2seq_Inr [OF assms(2) sq] hed unfolding Let_def x
    by (auto simp: base_in_def base_w_def split: if_splits)
  from init_final(2) [OF assms(1)]
  have 2: "(if last (hidden_layer_type a) \<in> set Decoder_variants
      then self_final_layer N = last (self_rnn_layers N)
      else linput (self_final_layer N) = Output (last (self_rnn_layers N)) \<and>
           l_n_in (self_final_layer N) =
             (if last (hidden_layer_type a) \<in> set BLSTM_variants
              then last (hidden_layer_size a) * 2 else last (hidden_layer_size a)))"
    by (simp split: if_splits)
  from 1 2 show ?thesis by blast
qed

theorem layer_inputs_and_widths_witness:
  "\<exists>N. init ext_example args_hed = Inr N \<and>
     linput (self_rnn_layers N ! 0) = self_x N \<and> l_n_in (self_rnn_layers N ! 0) = 3 \<and>
     l_n_in (self_rnn_layers N ! 1) = 4 + (3 - 0) \<and>
     linput (self_final_layer N) = Output (last (self_rnn_layers N)) \<and>
     l_n_in (self_final_layer N) = 6"
proof -
  from init_hed_ok obtain N where N: "init ext_example args_hed = Inr N" ..
  have len: "0 < length (hidden_layer_type args_hed)" "1 < length (hidden_layer_type args_hed)"
    by (simp_all add: args_hed_simps)
  from layer_inputs_and_widths [OF N len(1)]
  have 0: "linput (self_rnn_layers N ! 0) = self_x N \<and> l_n_in (self_rnn_layers N ! 0) = 3"
    and f: "linput (self_final_layer N) = Output (last (self_rnn_layers N)) \<and>
     l_n_in (self_final_layer N) = 6"
    by (simp_all add: Let_def enc_at_hed args_hed_simps Decoder_variants_def BLSTM_variants_def)
  from layer_inputs_and_widths [OF N len(2)]
  have 1: "l_n_in (self_rnn_layers N ! 1) = 4 + (3 - 0)"
    by (simp add: Let_def enc_at_hed enc_count_hed args_hed_simps BLSTM_variants_def)
  from N 0 1 f show ?thesis by blast
qed

theorem width_after_encoder_counterexample:
  "init ext_example args_hed = Inr net_hed \<and>
   hidden_layer_type args_hed ! 0 \<notin> set BLSTM_variants \<and>
   hidden_layer_size args_hed ! 0 = 4 \<and>
   l_n_in (self_rnn_layers net_hed ! 1) = 7"
proof -
  have "\<not> isl (init ext_example args_hed)" by code_simp
  then have "init ext_example args_hed = Inr net_hed"
    unfolding net_hed_def by (rule Inr_projr)
  moreover have "hidden_layer_type args_hed ! 0 \<notin> set BLSTM_variants \<and>
      hidden_layer_size args_hed ! 0 = 4 \<and> l_n_in (self_rnn_layers net_hed ! 1) = 7"
    by code_simp
  ultimately show ?thesis by simp
qed

section \<open>Hierarchical encoding\<close>

lemma seg_end_skip:
  "i \<le> j \<Longrightarrow> (\<forall>m. i \<le> m \<and> m < j \<longrightarrow> \<not> enc_at a m) \<Longrightarrow>
     seg_end a ls j = seg_end a ls i \<and> enc_count a j = enc_count a i"
proof (induction j)
  case 0
  then show ?case by simp
next
  case (Suc j)
  show ?case
  proof (cases "i = Suc j")
    case True
    then show ?thesis by simp
  next
    case False
    then have "i \<le> j" using Suc.prems(1) by simp
    moreover have "\<forall>m. i \<le> m \<and> m < j \<longrightarrow> \<not> enc_at a m" using Suc.prems(2) by simp
    ultimately have "seg_end a ls j = seg_end a ls i \<and> enc_count a j = enc_count a i"
      by (rule Suc.IH)
    moreover have "\<not> enc_at a j" using Suc.prems(2) \<open>i \<le> j\<close> by simp
    ultimately show ?thesis by (simp add: enc_count_Suc)
  qed
qed

lemma enc_count_zero: "enc_count a i = 0 \<Longrightarrow> m < i \<Longrightarrow> \<not> enc_at a m"
  by (auto simp: enc_count_def filter_empty_conv)

text \<open>
  Claim C3. Under \<^verbatim>\<open>'HED'\<close>, an iteration \<open>i\<close> whose preceding tag is an encoder variant
  is the \<open>k\<close>-th to run the encoder block, \<open>k\<close> counting the earlier ones. It takes the
  segment length \<^verbatim>\<open>layer_input.size // input_size\<close>, encodes the slice of \<open>d\<close> from the
  current \<^verbatim>\<open>prev_seg_end\<close> over that length, concatenates the result with rows
  \<^verbatim>\<open>0 : sum(slice)\<close> and columns \<^verbatim>\<open>MLU_div[k] : MLU_div[k+1]\<close> of \<open>f\<close>, and widens the
  layer by \<^verbatim>\<open>MLU_div[k+1] - MLU_div[k]\<close>. The first slice starts at 0, and the next iteration
  that runs the block is the \<open>(k+1)\<close>-th and starts its slice where this one ends, so that
  under any reading of the bounds as integers the two slices share no index.
\<close>

theorem hed_segments:
  assumes "init E a = Inr N" and "ed_type a = ''HED''"
    and "i < length (hidden_layer_type a)" and "enc_at a i"
  shows
    "(let L = self_rnn_layers N; k = enc_count a i;
          layer_input = (if i = 0 then self_x N else Output (L ! (i - 1)));
          input_size = base_w a i;
          prev_end = seg_end a L i;
          seg_length = FloorDiv (Size layer_input) (PyInt input_size);
          seg_dur_input = Slice (Var ''d'' IVector) prev_end (Add prev_end seg_length)
      in self_d N = Some (Var ''d'' IVector) \<and> self_f N = Some (Var ''f'' Matrix) \<and>
         k + 1 < length (MLU_div_lengths a) \<and>
         linput (L ! i) =
           Concatenate (EncodedOutput layer_input seg_dur_input)
             (Slice2 (Var ''f'' Matrix) (PyInt 0) (SumAll seg_dur_input)
                (MLU_div_lengths a ! k) (MLU_div_lengths a ! (k + 1))) 1 \<and>
         l_n_in (L ! i) = input_size + (MLU_div_lengths a ! (k + 1) - MLU_div_lengths a ! k) \<and>
         seg_end a L (Suc i) = Add prev_end seg_length \<and>
         enc_count a (Suc i) = k + 1 \<and>
         (k = 0 \<longrightarrow> prev_end = PyInt 0) \<and>
         (\<forall>j. i < j \<and> j < length (hidden_layer_type a) \<and> enc_at a j \<and>
               (\<forall>m. i < m \<and> m < j \<longrightarrow> \<not> enc_at a m) \<longrightarrow>
               enc_count a j = k + 1 \<and> seg_end a L j = Add prev_end seg_length \<and>
               (\<forall>v :: expr \<Rightarrow> int.
                  {v prev_end ..< v (Add prev_end seg_length)} \<inter>
                  {v (seg_end a L j) ..< v (seg_end a L (Suc j))} = {})))"
proof -
  let ?L = "self_rnn_layers N"
  from init_layer [OF assms(1,3)] assms(2) obtain p' k' where
    sq: "seq2seq a i (base_in a ?L i) (base_w a i) (seg_end a ?L i) (enc_count a i)
       = Inr (linput (?L ! i), l_n_in (?L ! i), p', k')"
    by blast
  note r = seq2seq_Inr [OF assms(3) sq]
  have x: "self_x N = x_var a" and d: "self_d N = d_var a" and f: "self_f N = f_var a"
    using init_fields [OF assms(1)] by simp_all
  have b: "base_in a ?L i = (if i = 0 then self_x N else Output (?L ! (i - 1)))"
    by (simp add: base_in_def x)
  have s2s: "network_type a = ''S2S''" using r assms(2,4) by simp
  have next_end: "seg_end a ?L (Suc i) = Add (seg_end a ?L i) (seg_len a ?L i)"
    using assms(4) by simp
  have first: "enc_count a i = 0 \<longrightarrow> seg_end a ?L i = PyInt 0"
  proof
    assume "enc_count a i = 0"
    then have "\<forall>m. 0 \<le> m \<and> m < i \<longrightarrow> \<not> enc_at a m" using enc_count_zero by blast
    from seg_end_skip [OF _ this, of ?L] show "seg_end a ?L i = PyInt 0" by simp
  qed
  have later: "enc_count a j = enc_count a i + 1 \<and>
      seg_end a ?L j = Add (seg_end a ?L i) (seg_len a ?L i) \<and>
      (\<forall>v :: expr \<Rightarrow> int.
         {v (seg_end a ?L i) ..< v (Add (seg_end a ?L i) (seg_len a ?L i))} \<inter>
         {v (seg_end a ?L j) ..< v (seg_end a ?L (Suc j))} = {})"
    if j: "i < j" and free: "\<forall>m. i < m \<and> m < j \<longrightarrow> \<not> enc_at a m" for j
  proof -
    have "Suc i \<le> j" using j by simp
    moreover have "\<forall>m. Suc i \<le> m \<and> m < j \<longrightarrow> \<not> enc_at a m" using free by simp
    ultimately have "seg_end a ?L j = seg_end a ?L (Suc i) \<and> enc_count a j = enc_count a (Suc i)"
      by (rule seg_end_skip)
    then have e: "seg_end a ?L j = Add (seg_end a ?L i) (seg_len a ?L i)"
      and c: "enc_count a j = enc_count a i + 1"
      using next_end assms(4) by (simp_all add: enc_count_Suc)
    show ?thesis unfolding e using c by auto
  qed
  show ?thesis
    unfolding Let_def b [symmetric]
    using r assms(2,4) s2s first later next_end
    by (simp add: d f d_var_def f_var_def enc_count_Suc seg_len_def)
qed

theorem hed_segments_witness:
  "\<exists>N. init ext_example args_hed = Inr N \<and>
     linput (self_rnn_layers N ! 1) =
       Concatenate
         (EncodedOutput (Output (self_rnn_layers N ! 0))
            (Slice (Var ''d'' IVector) (PyInt 0)
               (Add (PyInt 0) (FloorDiv (Size (Output (self_rnn_layers N ! 0))) (PyInt 4)))))
         (Slice2 (Var ''f'' Matrix) (PyInt 0)
            (SumAll (Slice (Var ''d'' IVector) (PyInt 0)
               (Add (PyInt 0) (FloorDiv (Size (Output (self_rnn_layers N ! 0))) (PyInt 4)))))
            0 3) 1 \<and>
     l_n_in (self_rnn_layers N ! 1) = 4 + (3 - 0) \<and>
     enc_count args_hed 2 = 1 \<and>
     seg_end args_hed (self_rnn_layers N) 2 =
       Add (PyInt 0) (FloorDiv (Size (Output (self_rnn_layers N ! 0))) (PyInt 4))"
proof -
  from init_hed_ok obtain N where N: "init ext_example args_hed = Inr N" ..
  have i: "1 < length (hidden_layer_type args_hed)" by (simp add: args_hed_simps)
  have e: "enc_at args_hed 1" using enc_at_hed(2) by simp
  have w: "base_w args_hed (Suc 0) = 4"
    by (simp add: base_w_def args_hed_simps BLSTM_variants_def)
  have s: "seg_end args_hed (self_rnn_layers N) (Suc 0) = PyInt 0"
    by (simp add: enc_at_hed)
  from hed_segments [OF N args_hed_simps(5) i e]
  have "linput (self_rnn_layers N ! 1) =
       Concatenate
         (EncodedOutput (Output (self_rnn_layers N ! 0))
            (Slice (Var ''d'' IVector) (PyInt 0)
               (Add (PyInt 0) (FloorDiv (Size (Output (self_rnn_layers N ! 0))) (PyInt 4)))))
         (Slice2 (Var ''f'' Matrix) (PyInt 0)
            (SumAll (Slice (Var ''d'' IVector) (PyInt 0)
               (Add (PyInt 0) (FloorDiv (Size (Output (self_rnn_layers N ! 0))) (PyInt 4)))))
            0 3) 1 \<and>
     l_n_in (self_rnn_layers N ! 1) = 4 + (3 - 0) \<and>
     enc_count args_hed 2 = 1 \<and>
     seg_end args_hed (self_rnn_layers N) 2 =
       Add (PyInt 0) (FloorDiv (Size (Output (self_rnn_layers N ! 0))) (PyInt 4))"
    unfolding Let_def
    by (simp add: w s enc_count_hed args_hed_simps numeral_2_eq_2 del: seg_end.simps)
  with N show ?thesis by blast
qed

section \<open>The first iteration\<close>

lemma init_last_encoder_ok: "\<exists>N. init ext_example args_last_encoder = Inr N"
proof -
  have "\<not> isl (init ext_example args_last_encoder)" by code_simp
  then show ?thesis by (cases "init ext_example args_last_encoder") auto
qed

lemma args_last_encoder_simps:
  "hidden_layer_type args_last_encoder = [''TANH'', ''LSTME'']"
  "hidden_layer_size args_last_encoder = [4, 5]" "MLU_div_lengths args_last_encoder = [0, 3]"
  "n_in args_last_encoder = 3" "ed_type args_last_encoder = ''HED''"
  by (simp_all add: args_last_encoder_def args_example_def)

text \<open>
  Claim C8, amended. In the first iteration the encoder check reads
  \<^verbatim>\<open>hidden_layer_type[-1]\<close>, the last tag. When that tag is an encoder variant and
  \<^verbatim>\<open>ed_type\<close> is \<^verbatim>\<open>'VED'\<close> or \<^verbatim>\<open>'HED'\<close>, the first layer of a returned network does
  not receive \<open>x\<close> but the encoding of \<open>x\<close> concatenated with frame features, and its width
  is \<^verbatim>\<open>n_in\<close> plus that of the features.
\<close>

theorem first_layer_reads_last_tag:
  assumes "init E a = Inr N"
    and "last (hidden_layer_type a) \<in> set Encoder_variants"
    and "ed_type a = ''VED'' \<or> ed_type a = ''HED''"
  shows
    "py_getitem (hidden_layer_type a) (int 0 - 1) = Inr (last (hidden_layer_type a)) \<and>
     (ed_type a = ''VED'' \<longrightarrow>
        linput (self_rnn_layers N ! 0) =
          Concatenate (EncodedOutput (self_x N) (Var ''d'' IVector)) (Var ''f'' Matrix) 1 \<and>
        l_n_in (self_rnn_layers N ! 0) = n_in a + 4) \<and>
     (ed_type a = ''HED'' \<longrightarrow>
        (let seg_dur_input =
               Slice (Var ''d'' IVector) (PyInt 0)
                 (Add (PyInt 0) (FloorDiv (Size (self_x N)) (PyInt (n_in a))))
         in linput (self_rnn_layers N ! 0) =
              Concatenate (EncodedOutput (self_x N) seg_dur_input)
                (Slice2 (Var ''f'' Matrix) (PyInt 0) (SumAll seg_dur_input)
                   (MLU_div_lengths a ! 0) (MLU_div_lengths a ! 1)) 1 \<and>
            l_n_in (self_rnn_layers N ! 0) =
              n_in a + (MLU_div_lengths a ! 1 - MLU_div_lengths a ! 0)))"
proof -
  have ne: "hidden_layer_type a \<noteq> []" using init_final(1) [OF assms(1)] .
  then have i: "0 < length (hidden_layer_type a)" by simp
  have pt: "prev_tag a 0 = last (hidden_layer_type a)"
    using ne by (simp add: prev_tag_def last_conv_nth)
  then have enc: "enc_at a 0" using assms(2) by (simp add: enc_at_def)
  have 1: "py_getitem (hidden_layer_type a) (int 0 - 1) = Inr (last (hidden_layer_type a))"
    using py_getitem_prev_tag [OF i] pt by simp
  from init_layer [OF assms(1) i] obtain p k p' k' where
    sq: "seq2seq a 0 (base_in a (self_rnn_layers N) 0) (base_w a 0) p k
       = Inr (linput (self_rnn_layers N ! 0), l_n_in (self_rnn_layers N ! 0), p', k')"
    and hed: "ed_type a = ''HED'' \<longrightarrow> p = seg_end a (self_rnn_layers N) 0 \<and> k = enc_count a 0"
    by blast
  have x: "self_x N = x_var a" using init_fields(1) [OF assms(1)] .
  from seq2seq_Inr [OF i sq] enc hed assms(3) 1 show ?thesis
    unfolding Let_def x
    by (auto simp: base_in_def base_w_def enc_count_0)
qed

theorem first_layer_reads_last_tag_witness:
  "\<exists>N. init ext_example args_last_encoder = Inr N \<and>
     last (hidden_layer_type args_last_encoder) = ''LSTME'' \<and>
     linput (self_rnn_layers N ! 0) =
       Concatenate
         (EncodedOutput (self_x N)
            (Slice (Var ''d'' IVector) (PyInt 0)
               (Add (PyInt 0) (FloorDiv (Size (self_x N)) (PyInt 3)))))
         (Slice2 (Var ''f'' Matrix) (PyInt 0)
            (SumAll (Slice (Var ''d'' IVector) (PyInt 0)
               (Add (PyInt 0) (FloorDiv (Size (self_x N)) (PyInt 3)))))
            0 3) 1 \<and>
     l_n_in (self_rnn_layers N ! 0) = 3 + (3 - 0)"
proof -
  from init_last_encoder_ok obtain N where N: "init ext_example args_last_encoder = Inr N" ..
  have l: "last (hidden_layer_type args_last_encoder) = ''LSTME''"
    by (simp add: args_last_encoder_simps)
  have e: "last (hidden_layer_type args_last_encoder) \<in> set Encoder_variants"
    by (simp add: l Encoder_variants_def)
  have h: "ed_type args_last_encoder = ''VED'' \<or> ed_type args_last_encoder = ''HED''"
    by (simp add: args_last_encoder_simps)
  from first_layer_reads_last_tag [OF N e h] N l show ?thesis
    unfolding Let_def by (simp add: args_last_encoder_simps)
qed

theorem other_ed_type_counterexample:
  "init ext_example args_other_ed = Inr net_other_ed \<and>
   last (hidden_layer_type args_other_ed) \<in> set Encoder_variants \<and>
   linput (self_rnn_layers net_other_ed ! 0) = self_x net_other_ed"
proof -
  have "\<not> isl (init ext_example args_other_ed)" by code_simp
  then have "init ext_example args_other_ed = Inr net_other_ed"
    unfolding net_other_ed_def by (rule Inr_projr)
  moreover have "last (hidden_layer_type args_other_ed) \<in> set Encoder_variants \<and>
      linput (self_rnn_layers net_other_ed ! 0) = self_x net_other_ed"
    by code_simp
  ultimately show ?thesis by simp
qed

section \<open>When the loop completes\<close>

lemma seq2seq_ok_mono: "seq2seq_ok a n \<Longrightarrow> m \<le> n \<Longrightarrow> seq2seq_ok a m"
  unfolding seq2seq_ok_def using order.strict_trans2 by blast

lemma seq2seq_ok_at:
  "seq2seq_ok a (Suc i) \<Longrightarrow> enc_at a i \<Longrightarrow>
     network_type a = ''S2S'' \<and>
     (ed_type a = ''HED'' \<longrightarrow> enc_count a i + 1 < length (MLU_div_lengths a))"
  unfolding seq2seq_ok_def by blast

lemma seq2seq_succeeds:
  assumes i: "i < length (hidden_layer_type a)"
    and ok: "enc_at a i \<longrightarrow> network_type a = ''S2S'' \<and>
        (ed_type a = ''HED'' \<longrightarrow> k + 1 < length (MLU_div_lengths a))"
  shows "\<exists>r. seq2seq a i b w p k = Inr r"
  using ok unfolding seq2seq_eq [OF i] by auto

lemma loop_upto_succeeds:
  assumes eq: "length (hidden_layer_size a) = length (hidden_layer_type a)"
  shows "m \<le> length (hidden_layer_type a) \<Longrightarrow>
    (\<forall>j < m. hidden_layer_type a ! j \<in> set supported_types) \<Longrightarrow> seq2seq_ok a m \<Longrightarrow>
    \<exists>s. loop_upto E a m = Inr s"
proof (induction m)
  case 0
  then show ?case by (simp add: loop_upto_0)
next
  case (Suc m)
  have m: "m < length (hidden_layer_type a)" using Suc.prems(1) by simp
  have "seq2seq_ok a m" using seq2seq_ok_mono [OF Suc.prems(3)] by simp
  with Suc obtain s where s: "loop_upto E a m = Inr s" by auto
  have len: "length (rnn_layers s) = m" using loop_upto_length [OF eq _ s] m by simp
  have ec: "ed_type a = ''HED'' \<longrightarrow> encoder_count s = enc_count a m"
    using loop_upto_hed [OF eq _ _ s] m by simp
  have "enc_at a m \<longrightarrow> network_type a = ''S2S'' \<and>
        (ed_type a = ''HED'' \<longrightarrow> encoder_count s + 1 < length (MLU_div_lengths a))"
    using seq2seq_ok_at [OF Suc.prems(3)] ec by auto
  from seq2seq_succeeds [OF m this]
  obtain li' w' p' k' where sq:
    "seq2seq a m (base_in a (rnn_layers s) m) (base_w a m) (prev_seg_end s) (encoder_count s)
       = Inr (li', w', p', k')"
    by (metis prod_cases4)
  have "hidden_layer_type a ! m \<in> set supported_types" using Suc.prems(2) by simp
  from hidden_layer_of_supported [OF this] obtain l where
    "hidden_layer_of a (hidden_layer_type a ! m) li' w' (hidden_layer_size a ! m) = Inr l" by blast
  then have "\<exists>s'. layer_iteration E a m s = Inr s'"
    unfolding layer_iteration_eq [OF m eq len] sq by simp
  then show ?case using s by (auto simp: loop_upto_Suc)
qed

lemma loop_upto_fails_later:
  assumes "m \<le> n" and f: "loop_upto E a m = Inl e"
  shows "loop_upto E a n = Inl e"
proof -
  have "[0 ..< m + (n - m)] = [0 ..< m] @ [m ..< m + (n - m)]"
    by (rule upt_add_eq_append) simp
  then have "[0 ..< n] = [0 ..< m] @ [m ..< n]"
    using assms(1) by simp
  then show ?thesis using f by (simp add: loop_upto_def layer_loop_append)
qed

text \<open>The loop stops with \<^verbatim>\<open>sys.exit(1)\<close> at the first tag without a branch, once it gets there.\<close>

lemma loop_upto_unsupported:
  assumes eq: "length (hidden_layer_size a) = length (hidden_layer_type a)"
    and i: "i < length (hidden_layer_type a)"
    and before: "\<forall>j < i. hidden_layer_type a ! j \<in> set supported_types"
    and bad: "hidden_layer_type a ! i \<notin> set supported_types"
    and ok: "seq2seq_ok a (Suc i)"
  shows "loop_upto E a (length (hidden_layer_type a)) = Inl (SystemExit 1)"
proof -
  have "seq2seq_ok a i" using seq2seq_ok_mono [OF ok] by simp
  from loop_upto_succeeds [OF eq _ before this] i
  obtain s where s: "loop_upto E a i = Inr s" by auto
  have len: "length (rnn_layers s) = i" using loop_upto_length [OF eq _ s] i by simp
  have ec: "ed_type a = ''HED'' \<longrightarrow> encoder_count s = enc_count a i"
    using loop_upto_hed [OF eq _ _ s] i by simp
  have "enc_at a i \<longrightarrow> network_type a = ''S2S'' \<and>
        (ed_type a = ''HED'' \<longrightarrow> encoder_count s + 1 < length (MLU_div_lengths a))"
    using seq2seq_ok_at [OF ok] ec by auto
  from seq2seq_succeeds [OF i this]
  obtain li' w' p' k' where sq:
    "seq2seq a i (base_in a (rnn_layers s) i) (base_w a i) (prev_seg_end s) (encoder_count s)
       = Inr (li', w', p', k')"
    by (metis prod_cases4)
  have "layer_iteration E a i s = Inl (SystemExit 1)"
    unfolding layer_iteration_eq [OF i eq len] sq
    by (simp add: hidden_layer_of_unsupported [OF bad])
  then have "loop_upto E a (Suc i) = Inl (SystemExit 1)" using s by (simp add: loop_upto_Suc)
  from loop_upto_fails_later [OF _ this] i show ?thesis by simp
qed

section \<open>Unsupported names\<close>

lemma init_layers_length:
  assumes "init E a = Inr N"
  shows "length (self_rnn_layers N) = length (hidden_layer_type a)"
proof -
  from init_Inr [OF assms] obtain s where
    eq: "length (hidden_layer_size a) = length (hidden_layer_type a)"
    and run: "loop_upto E a (length (hidden_layer_type a)) = Inr s"
    and ls: "self_rnn_layers N = rnn_layers s" by auto
  show ?thesis using loop_upto_length [OF eq _ run] ls by simp
qed

lemma init_layer_built:
  assumes N: "init E a = Inr N" and i: "i < length (hidden_layer_type a)"
  shows "\<exists>li' w'. hidden_layer_of a (hidden_layer_type a ! i) li' w' (hidden_layer_size a ! i)
     = Inr (self_rnn_layers N ! i)"
proof -
  let ?n = "length (hidden_layer_type a)"
  from init_Inr [OF N] obtain s where
    eq: "length (hidden_layer_size a) = ?n" and run: "loop_upto E a ?n = Inr s"
    and ls: "self_rnn_layers N = rnn_layers s" by auto
  have len: "length (rnn_layers s) = ?n" using loop_upto_length [OF eq _ run] by simp
  from loop_upto_layer [OF eq _ run i] obtain s0 s1 where
    it: "layer_iteration E a i s0 = Inr s1" and l0: "rnn_layers s0 = take i (rnn_layers s)"
    and l1: "rnn_layers s1 = take i (rnn_layers s) @ [rnn_layers s ! i]" by auto
  have "length (rnn_layers s0) = i" using l0 len i by simp
  from layer_iteration_Inr [OF it i eq this] l0 l1 show ?thesis unfolding ls by auto
qed

lemma init_tags_supported:
  assumes "init E a = Inr N" and "i < length (hidden_layer_type a)"
  shows "hidden_layer_type a ! i \<in> set supported_types"
  using init_layer_built [OF assms] hidden_layer_of_Inr(4) by blast

lemma count_freeze_params_eq:
  "\<forall>l \<in> set ls. l < length (self_rnn_layers N) \<Longrightarrow>
     count_freeze_params E N ls z =
       Inr (z + int (sum_list (map (\<lambda>l. length (params_of E (self_rnn_layers N ! l))) ls)))"
  by (induction ls arbitrary: z) (simp_all add: py_getitem_nat)

lemma count_freeze_params_frozen:
  assumes "nat layer_index \<le> length (self_rnn_layers N)"
  shows "count_freeze_params E N [0 ..< nat layer_index] 0 = Inr (frozen_count E N layer_index)"
  using assms by (simp add: count_freeze_params_eq frozen_count_def)

lemma init_unsupported_tag:
  assumes eq: "length (hidden_layer_size a) = length (hidden_layer_type a)"
    and i: "i < length (hidden_layer_type a)"
    and before: "\<forall>j < i. hidden_layer_type a ! j \<in> set supported_types"
    and bad: "hidden_layer_type a ! i \<notin> set supported_types"
    and ok: "seq2seq_ok a (Suc i)"
  shows "init E a = Inl (SystemExit 1)"
  using loop_upto_unsupported [OF assms, of E] eq
  by (simp add: init_def loop_upto_def)

lemma init_unsupported_output:
  assumes eq: "length (hidden_layer_size a) = length (hidden_layer_type a)"
    and ne: "hidden_layer_type a \<noteq> []"
    and tags: "\<forall>j < length (hidden_layer_type a). hidden_layer_type a ! j \<in> set supported_types"
    and ok: "seq2seq_ok a (length (hidden_layer_type a))"
    and nd: "last (hidden_layer_type a) \<notin> set Decoder_variants"
    and bad: "\<not> supported_output a"
  shows "init E a = Inl (SystemExit 1)"
proof -
  from loop_upto_succeeds [OF eq _ tags ok] obtain s where
    s: "loop_upto E a (length (hidden_layer_type a)) = Inr s" by auto
  have len: "length (rnn_layers s) = length (hidden_layer_type a)"
    using loop_upto_length [OF eq _ s] by simp
  have ne2: "hidden_layer_size a \<noteq> []" "rnn_layers s \<noteq> []" using ne eq len by auto
  have "final_layer_of E a s = Inl (SystemExit 1)"
    using bad nd unfolding final_layer_of_def supported_output_def
    by (simp add: py_getitem_last ne ne2 Let_def)
  then show ?thesis using s eq by (simp add: init_def loop_upto_def)
qed

lemma build_unsupported_optimizer:
  assumes cost: "self_finetune_cost N \<noteq> None"
    and li: "nat layer_index \<le> length (self_rnn_layers N)"
    and bad: "self_optimizer N \<noteq> ''sgd''" "self_optimizer N \<noteq> ''adam''"
      "self_optimizer N \<noteq> ''rprop''"
  shows "build_finetune_functions E Q N train_xy valid_xy use_lhuc layer_index
     = Inl (SystemExit 1)"
proof -
  from cost obtain c where c: "self_finetune_cost N = Some c" by auto
  show ?thesis
    unfolding build_finetune_functions_def
    by (simp add: c getattr_def count_freeze_params_frozen [OF li] bad Let_def
        split: prod.splits)
qed

text \<open>
  Claim C7, amended. With lists of equal length, the constructor stops through
  \<^verbatim>\<open>sys.exit(1)\<close> at the first tag that has no branch, provided no encoder block fails in
  that iteration or before it; and whatever else happens, it returns no network when some tag
  has no branch. It stops the same way at an output type without a branch when every tag has
  one, no encoder block fails and the last hidden layer is not a decoder. And
  \<^verbatim>\<open>build_finetune_functions\<close> stops the same way at an optimiser other than the three it
  knows, provided the network has a cost and \<^verbatim>\<open>layer_index\<close> does not exceed the number
  of hidden layers.
\<close>

theorem unsupported_names_exit:
  "(length (hidden_layer_size a) = length (hidden_layer_type a) \<and>
    i < length (hidden_layer_type a) \<and>
    (\<forall>j < i. hidden_layer_type a ! j \<in> set supported_types) \<and>
    hidden_layer_type a ! i \<notin> set supported_types \<and> seq2seq_ok a (Suc i)
      \<longrightarrow> init E a = Inl (SystemExit 1)) \<and>
   (i < length (hidden_layer_type a) \<and> hidden_layer_type a ! i \<notin> set supported_types
      \<longrightarrow> (\<forall>N. init E a \<noteq> Inr N)) \<and>
   (length (hidden_layer_size a) = length (hidden_layer_type a) \<and>
    hidden_layer_type a \<noteq> [] \<and>
    (\<forall>j < length (hidden_layer_type a). hidden_layer_type a ! j \<in> set supported_types) \<and>
    seq2seq_ok a (length (hidden_layer_type a)) \<and>
    last (hidden_layer_type a) \<notin> set Decoder_variants \<and> \<not> supported_output a
      \<longrightarrow> init E a = Inl (SystemExit 1)) \<and>
   (self_finetune_cost N \<noteq> None \<and> nat layer_index \<le> length (self_rnn_layers N) \<and>
    self_optimizer N \<noteq> ''sgd'' \<and> self_optimizer N \<noteq> ''adam'' \<and> self_optimizer N \<noteq> ''rprop''
      \<longrightarrow> build_finetune_functions E Q N train_xy valid_xy use_lhuc layer_index
            = Inl (SystemExit 1))"
  using init_unsupported_tag [of a i E] init_tags_supported [of E a _ i]
    init_unsupported_output [of a E]
    build_unsupported_optimizer [of N layer_index E Q train_xy valid_xy use_lhuc]
  by blast

lemma args_example_simps:
  "hidden_layer_type args_example = [''TANH'', ''LSTM'']"
  "hidden_layer_size args_example = [4, 5]" "MLU_div_lengths args_example = []"
  "n_in args_example = 3" "ed_type args_example = ''HED''" "network_type args_example = ''S2S''"
  "output_type args_example = ''LINEAR''" "optimizer args_example = ''sgd''"
  "loss_function args_example = ''MMSE''" "rnn_batch_training args_example = False"
  "n_out args_example = 2"
  by (simp_all add: args_example_def)

lemma no_encoder_ok:
  "\<forall>t \<in> set (hidden_layer_type a). t \<notin> set Encoder_variants \<Longrightarrow>
     m \<le> length (hidden_layer_type a) \<Longrightarrow> seq2seq_ok a m"
  unfolding seq2seq_ok_def enc_at_def prev_tag_def
  by (auto simp: Let_def split: if_splits)

lemma init_unknown_optimizer_ok: "\<exists>N. init ext_example args_unknown_optimizer = Inr N"
proof -
  have "\<not> isl (init ext_example args_unknown_optimizer)" by code_simp
  then show ?thesis by (cases "init ext_example args_unknown_optimizer") auto
qed

theorem unsupported_names_exit_witness:
  "init ext_example args_plain_unknown_tag = Inl (SystemExit 1) \<and>
   init ext_example args_unknown_output = Inl (SystemExit 1) \<and>
   (\<exists>N. init ext_example args_unknown_optimizer = Inr N \<and>
      (build_finetune_functions ext_example opt_example N train_data valid_data False 0
         :: error + (unit tfunction \<times> unit tfunction)) = Inl (SystemExit 1))"
proof -
  have t: "hidden_layer_type args_plain_unknown_tag = [''TANH'', ''FOO'']"
    "hidden_layer_size args_plain_unknown_tag = [4, 5]"
    by (simp_all add: args_plain_unknown_tag_def args_example_def)
  have ok1: "seq2seq_ok args_plain_unknown_tag (Suc 1)"
    by (rule no_encoder_ok) (simp_all add: t Encoder_variants_def)
  have 1: "init ext_example args_plain_unknown_tag = Inl (SystemExit 1)"
    using unsupported_names_exit
      [where a = args_plain_unknown_tag and i = 1 and E = ext_example, THEN conjunct1] ok1
    by (simp add: t supported_types_def)
  have u: "hidden_layer_type args_unknown_output = [''TANH'', ''LSTM'']"
    "hidden_layer_size args_unknown_output = [4, 5]"
    "output_type args_unknown_output = ''FOO''"
    by (simp_all add: args_unknown_output_def args_example_def)
  have ok2: "seq2seq_ok args_unknown_output (length (hidden_layer_type args_unknown_output))"
    by (rule no_encoder_ok) (simp_all add: u Encoder_variants_def)
  have bad: "\<not> supported_output args_unknown_output"
    by (simp add: supported_output_def u lower_def upper_def lower_char_def upper_char_def
        ascii_uppercase_def ascii_lowercase_def list_of_activations_def)
  have 2: "init ext_example args_unknown_output = Inl (SystemExit 1)"
    using unsupported_names_exit
      [where a = args_unknown_output and E = ext_example,
        THEN conjunct2, THEN conjunct2, THEN conjunct1] ok2 bad
    by (simp add: u supported_types_def Decoder_variants_def less_Suc_eq)
  from init_unknown_optimizer_ok obtain N where
    N: "init ext_example args_unknown_optimizer = Inr N" ..
  have o: "self_optimizer N = ''FOO''"
    using init_fields(6) [OF N] by (simp add: args_unknown_optimizer_def)
  have l: "length (self_rnn_layers N) = 2"
    using init_layers_length [OF N] by (simp add: args_unknown_optimizer_def args_example_def)
  have c: "self_finetune_cost N \<noteq> None"
    using init_Inr(2) [OF N]
    by (auto simp: loss_of_def Let_def args_unknown_optimizer_def args_example_def)
  have 3: "(build_finetune_functions ext_example opt_example N train_data valid_data False 0
         :: error + (unit tfunction \<times> unit tfunction)) = Inl (SystemExit 1)"
    using unsupported_names_exit
      [where N = N and layer_index = 0 and E = ext_example and Q = opt_example
        and train_xy = train_data and valid_xy = valid_data and use_lhuc = False,
        THEN conjunct2, THEN conjunct2, THEN conjunct2] o l c
    by simp
  from 1 2 3 N show ?thesis by blast
qed

theorem unknown_tag_counterexample:
  "hidden_layer_type args_unknown_tag ! 0 \<notin> set supported_types \<and>
   init ext_example args_unknown_tag = Inl IndexError"
  by code_simp

section \<open>Losses and prediction\<close>

lemma init_loss:
  assumes "init E a = Inr N"
  shows "loss_of E a (self_final_layer N) = Inr (self_finetune_cost N, self_errors N)"
  using init_Inr(2) [OF assms] by auto

lemma init_cce_ok: "\<exists>N. init ext_example args_cce = Inr N"
proof -
  have "\<not> isl (init ext_example args_cce)" by code_simp
  then show ?thesis by (cases "init ext_example args_cce") auto
qed

lemma init_hinge_ok: "\<exists>N. init ext_example args_hinge = Inr N"
proof -
  have "\<not> isl (init ext_example args_hinge)" by code_simp
  then show ?thesis by (cases "init ext_example args_hinge") auto
qed

text \<open>
  Claim C5. In a constructed network the cost and the error expression are the same
  expression, chosen by \<^verbatim>\<open>loss_function\<close>: for \<^verbatim>\<open>'MMSE'\<close> without batch training the
  mean of the sum along axis 1 of the squared difference between the output of the final
  layer and \<open>y\<close>; for \<^verbatim>\<open>'CCE'\<close> the mean of the categorical cross-entropy of the output
  against \<open>y\<close>; for \<^verbatim>\<open>'Hinge'\<close> the mean over the rectified margin violations with margin
  1, the largest output among the other classes minus the output of the correct class plus 1,
  the targets being \<open>y\<close> or, when \<open>y\<close> has one dimension less than the output, its one-hot
  encoding.
\<close>

theorem loss_selection:
  assumes "init E a = Inr N"
  shows
    "(loss_function a = ''MMSE'' \<and> \<not> rnn_batch_training a \<longrightarrow>
        self_finetune_cost N =
          Some (Mean (SumAxis (PowInt (Sub (Output (self_final_layer N)) (self_y N)) 2) 1)) \<and>
        self_errors N = self_finetune_cost N) \<and>
     (loss_function a = ''CCE'' \<longrightarrow>
        self_finetune_cost N =
          Some (Mean (CategoricalCrossentropy (Output (self_final_layer N)) (self_y N))) \<and>
        self_errors N = self_finetune_cost N) \<and>
     (loss_function a = ''Hinge'' \<longrightarrow>
        (let out = Output (self_final_layer N);
             targets = (if ndim E (self_y N) = out_ndim E (self_final_layer N) - 1
                        then ToOneHot (self_y N) (Shape out 1) else self_y N);
             corrects = Index out (Nonzero targets);
             rest = MaxAxis (Reshape (Index out (Nonzero (Sub (PyInt 1) targets)))
                               [PyInt (- 1), Sub (Shape out 1) (PyInt 1)]) 1
         in self_finetune_cost N = Some (Mean (Relu (Add (Sub rest corrects) (PyInt 1)))) \<and>
            self_errors N = self_finetune_cost N))"
proof -
  have y: "self_y N = y_var a" using init_fields(2) [OF assms] .
  show ?thesis
    using init_loss [OF assms] unfolding y
    by (auto simp: loss_of_def multiclass_hinge_loss_def categorical_crossentropy_loss_def
        Let_def bindE_Inr_iff split: if_splits)
qed

theorem loss_selection_witness:
  "(\<exists>N. init ext_example args_example = Inr N \<and>
      self_finetune_cost N =
        Some (Mean (SumAxis (PowInt (Sub (Output (self_final_layer N)) (Var ''y'' Matrix)) 2) 1)) \<and>
      self_errors N = self_finetune_cost N) \<and>
   (\<exists>N. init ext_example args_cce = Inr N \<and>
      self_finetune_cost N =
        Some (Mean (CategoricalCrossentropy (Output (self_final_layer N)) (Var ''y'' Matrix))) \<and>
      self_errors N = self_finetune_cost N) \<and>
   (\<exists>N. init ext_example args_hinge = Inr N \<and>
      self_finetune_cost N =
        Some (Mean (Relu (Add (Sub
          (MaxAxis (Reshape (Index (Output (self_final_layer N))
                               (Nonzero (Sub (PyInt 1) (Var ''y'' Matrix))))
                      [PyInt (- 1), Sub (Shape (Output (self_final_layer N)) 1) (PyInt 1)]) 1)
          (Index (Output (self_final_layer N)) (Nonzero (Var ''y'' Matrix))))
          (PyInt 1)))) \<and>
      self_errors N = self_finetune_cost N)"
proof -
  from init_example_ok obtain N1 where N1: "init ext_example args_example = Inr N1" ..
  from init_cce_ok obtain N2 where N2: "init ext_example args_cce = Inr N2" ..
  from init_hinge_ok obtain N3 where N3: "init ext_example args_hinge = Inr N3" ..
  have y1: "self_y N1 = Var ''y'' Matrix"
    using init_fields(2) [OF N1] by (simp add: y_var_def args_example_def)
  have y2: "self_y N2 = Var ''y'' Matrix"
    using init_fields(2) [OF N2] by (simp add: y_var_def args_cce_def args_example_def)
  have y3: "self_y N3 = Var ''y'' Matrix"
    using init_fields(2) [OF N3] by (simp add: y_var_def args_hinge_def args_example_def)
  have 1: "self_finetune_cost N1 =
        Some (Mean (SumAxis (PowInt (Sub (Output (self_final_layer N1)) (Var ''y'' Matrix)) 2) 1)) \<and>
      self_errors N1 = self_finetune_cost N1"
    using loss_selection [OF N1] by (simp add: y1 args_example_def)
  have 2: "self_finetune_cost N2 =
        Some (Mean (CategoricalCrossentropy (Output (self_final_layer N2)) (Var ''y'' Matrix))) \<and>
      self_errors N2 = self_finetune_cost N2"
    using loss_selection [OF N2] by (simp add: y2 args_cce_def args_example_def)
  have 3: "self_finetune_cost N3 =
        Some (Mean (Relu (Add (Sub
          (MaxAxis (Reshape (Index (Output (self_final_layer N3))
                               (Nonzero (Sub (PyInt 1) (Var ''y'' Matrix))))
                      [PyInt (- 1), Sub (Shape (Output (self_final_layer N3)) 1) (PyInt 1)]) 1)
          (Index (Output (self_final_layer N3)) (Nonzero (Var ''y'' Matrix))))
          (PyInt 1)))) \<and>
      self_errors N3 = self_finetune_cost N3"
    using loss_selection [OF N3]
    by (simp add: y3 args_hinge_def args_example_def ext_example_def Let_def)
  from N1 N2 N3 1 2 3 show ?thesis by blast
qed






section \<open>The parameters of a network\<close>

lemma layer_params_sid:
  "map sid (layer_params E w l) = map (Param w) [0 ..< length (params_of E l)]"
proof -
  have "map sid (layer_params E w l) = map (\<lambda>jp. Param w (fst jp)) (enumerate 0 (params_of E l))"
    by (simp add: layer_params_def case_prod_beta)
  also have "\<dots> = map (Param w) (map fst (enumerate 0 (params_of E l)))"
    by (simp only: map_map comp_def)
  also have "\<dots> = map (Param w) [0 ..< length (params_of E l)]"
    by simp
  finally show ?thesis .
qed

lemma length_layer_params [simp]: "length (layer_params E w l) = length (params_of E l)"
  by (simp add: layer_params_def)

lemma layer_params_owner:
  assumes "p \<in> set (layer_params E w l)"
  shows "\<exists>j. sid p = Param w j"
proof -
  from assms have "sid p \<in> set (map sid (layer_params E w l))" by simp
  then show ?thesis unfolding layer_params_sid by auto
qed

lemma distinct_layer_params: "distinct (map sid (layer_params E w l))"
  unfolding layer_params_sid by (simp add: distinct_map inj_on_def)

lemma hidden_params_Suc:
  "hidden_params E L (Suc k) = hidden_params E L k @ layer_params E (Hidden k) (L ! k)"
  by (simp add: hidden_params_def)

lemma hidden_params_owner:
  "p \<in> set (hidden_params E L k) \<Longrightarrow> \<exists>l j. l < k \<and> sid p = Param (Hidden l) j"
  by (auto simp: hidden_params_def dest: layer_params_owner)

lemma distinct_hidden_params: "distinct (map sid (hidden_params E L k))"
proof (induction k)
  case 0
  then show ?case by (simp add: hidden_params_def)
next
  case (Suc k)
  have "sid ` set (hidden_params E L k) \<inter> sid ` set (layer_params E (Hidden k) (L ! k)) = {}"
    by (auto dest!: hidden_params_owner layer_params_owner)
  then show ?case using Suc by (simp add: hidden_params_Suc distinct_layer_params)
qed

lemma hidden_params_split:
  "k \<le> n \<Longrightarrow> hidden_params E L n =
     hidden_params E L k @ concat (map (\<lambda>i. layer_params E (Hidden i) (L ! i)) [k ..< n])"
proof -
  assume "k \<le> n"
  have "[0 ..< k + (n - k)] = [0 ..< k] @ [k ..< k + (n - k)]"
    by (rule upt_add_eq_append) simp
  then have "[0 ..< n] = [0 ..< k] @ [k ..< n]" using \<open>k \<le> n\<close> by simp
  then show ?thesis by (simp add: hidden_params_def)
qed

lemma length_hidden_params:
  "length (hidden_params E L k) = sum_list (map (\<lambda>l. length (params_of E (L ! l))) [0 ..< k])"
  by (simp add: hidden_params_def length_concat comp_def)

text \<open>
  The parameter list of a constructed network: the lists of the hidden layers in order, then
  that of the output layer unless a decoder serves as output. All are different variables.
\<close>

lemma init_params:
  assumes "init E a = Inr N"
  shows "\<exists>F. self_params N = hidden_params E (self_rnn_layers N) (length (self_rnn_layers N)) @ F \<and>
     (F = [] \<or> F = layer_params E FinalLayer (self_final_layer N))"
  using init_final(2) [OF assms] init_layers_length [OF assms]
  by (auto simp: hidden_params_def split: if_splits)

lemma init_params_distinct:
  assumes "init E a = Inr N"
  shows "distinct (map sid (self_params N))"
    and "\<forall>p \<in> set (self_params N). \<exists>w j. sid p = Param w j"
proof -
  from init_params [OF assms] obtain F where
    ps: "self_params N = hidden_params E (self_rnn_layers N) (length (self_rnn_layers N)) @ F"
    and F: "F = [] \<or> F = layer_params E FinalLayer (self_final_layer N)" by blast
  have dF: "distinct (map sid F)" using F distinct_layer_params by auto
  have oF: "\<forall>p \<in> set F. \<exists>j. sid p = Param FinalLayer j"
    using F layer_params_owner by auto
  have "sid ` set (hidden_params E (self_rnn_layers N) (length (self_rnn_layers N))) \<inter> sid ` set F = {}"
    using oF by (auto dest!: hidden_params_owner)
  then show "distinct (map sid (self_params N))"
    unfolding ps using dF distinct_hidden_params by simp
  show "\<forall>p \<in> set (self_params N). \<exists>w j. sid p = Param w j"
    unfolding ps using oF by (auto dest!: hidden_params_owner)
qed

lemma map_of_fold_update:
  "map_of (fold (\<lambda>p us. AList.update p (g p) us) ps us0) q =
     (if q \<in> set ps then Some (g q) else map_of us0 q)"
  by (induction ps arbitrary: us0) (auto simp: update_conv')

lemma dict_get_make_updates:
  "p \<in> set ps \<Longrightarrow> dict_get (make_updates ps) p = Inr (updates_var p)"
  by (simp add: dict_get_def make_updates_def map_of_fold_update)

lemma map_of_make_updates:
  "p \<in> set ps \<Longrightarrow> map_of (make_updates ps) p = Some (updates_var p)"
  by (simp add: make_updates_def map_of_fold_update)

lemma updates_var_fields:
  "sname (updates_var p) = ''updates''" "svalue (updates_var p) = Zeros (shape (svalue p))"
  by (cases p; simp)+

lemma updates_var_sid:
  "sid p = Param w j \<Longrightarrow> sid (updates_var p) = Updates w j"
  by (cases p) simp

section \<open>The momentum rule\<close>

lemma update_fresh: "k \<notin> fst ` set al \<Longrightarrow> AList.update k v al = al @ [(k, v)]"
  by (induction al) auto

lemma updates_var_sid_neq:
  assumes "sid p = Param w j"
  shows "sid (updates_var p) \<noteq> sid p"
  using updates_var_sid [OF assms] assms by simp

lemma updates_var_sid_inj:
  assumes "sid p = Param w j" and "sid q = Param w' j'" and "sid p \<noteq> sid q"
  shows "sid (updates_var p) \<noteq> sid (updates_var q)"
  using updates_var_sid [OF assms(1)] updates_var_sid [OF assms(2)] assms by auto

lemma updates_var_sid_param:
  assumes "sid p = Param w j" and "sid q = Param w' j'"
  shows "sid (updates_var p) \<noteq> sid q"
  using updates_var_sid [OF assms(1)] assms(2) by simp

lemma sgd_entries_keys:
  "fst ` set (sgd_entries fz cost (i, p)) \<subseteq> {updates_var p, p}"
  by (auto simp: sgd_entries_def)

text \<open>
  The loop of lines 270 to 277 appends, for each parameter in turn, the update of its velocity
  and, from index \<^verbatim>\<open>freeze_params\<close> on, the update of the parameter itself.
\<close>

lemma sgd_loop_eq:
  assumes "\<forall>p \<in> set ps. dict_get (self_updates N) p = Inr (updates_var p)"
    and "distinct (map sid ps)" and "\<forall>p \<in> set ps. \<exists>w j. sid p = Param w j"
    and "\<forall>k \<in> fst ` set us. \<forall>p \<in> set ps. sid k \<noteq> sid p \<and> sid k \<noteq> sid (updates_var p)"
  shows "sgd_loop N fz (enumerate n (zip ps (map (Grad cost) ps))) us
     = Inr (us @ concat (map (sgd_entries fz cost) (enumerate n ps)))"
  using assms
proof (induction ps arbitrary: n us)
  case Nil
  then show ?case by simp
next
  case (Cons p ps)
  from Cons.prems(3) obtain w j where pj: "sid p = Param w j" by auto
  have look: "dict_get (self_updates N) p = Inr (updates_var p)" using Cons.prems(1) by simp
  have f1: "updates_var p \<notin> fst ` set us" using Cons.prems(4) by force
  have f2: "p \<notin> fst ` set (us @ [(updates_var p, sgd_upd cost p)])"
    using Cons.prems(4) updates_var_sid_neq [OF pj] by force
  let ?us2 = "us @ sgd_entries fz cost (n, p)"
  have step: "sgd_loop N fz (enumerate n (zip (p # ps) (map (Grad cost) (p # ps)))) us
      = sgd_loop N fz (enumerate (Suc n) (zip ps (map (Grad cost) ps))) ?us2"
    using update_fresh [OF f1] update_fresh [OF f2]
    by (simp add: look Let_def sgd_upd_def sgd_entries_def)
  have fresh: "\<forall>k \<in> fst ` set ?us2. \<forall>q \<in> set ps. sid k \<noteq> sid q \<and> sid k \<noteq> sid (updates_var q)"
  proof (intro ballI)
    fix k q assume k: "k \<in> fst ` set ?us2" and q: "q \<in> set ps"
    from Cons.prems(3) q obtain w' j' where qj: "sid q = Param w' j'" by auto
    have ne: "sid p \<noteq> sid q" using Cons.prems(2) q by auto
    from k consider "k \<in> fst ` set us" | "k = updates_var p" | "k = p"
      using sgd_entries_keys [of fz cost n p] by auto
    then show "sid k \<noteq> sid q \<and> sid k \<noteq> sid (updates_var q)"
    proof cases
      case 1
      then show ?thesis using Cons.prems(4) q by force
    next
      case 2
      then show ?thesis
        using updates_var_sid_param [OF pj qj] updates_var_sid_inj [OF pj qj ne] by simp
    next
      case 3
      then show ?thesis using ne updates_var_sid_param [OF qj pj] by auto
    qed
  qed
  have "sgd_loop N fz (enumerate (Suc n) (zip ps (map (Grad cost) ps))) ?us2
      = Inr (?us2 @ concat (map (sgd_entries fz cost) (enumerate (Suc n) ps)))"
    using Cons.prems by (intro Cons.IH fresh) auto
  then show ?case unfolding step by simp
qed

lemma sgd_entries_mem:
  assumes "i < length ps"
  shows "(updates_var (ps ! i), sgd_upd cost (ps ! i))
      \<in> set (concat (map (sgd_entries fz cost) (enumerate n ps)))"
    and "fz \<le> int (n + i) \<Longrightarrow> (ps ! i, Add (SharedVar (ps ! i)) (sgd_upd cost (ps ! i)))
      \<in> set (concat (map (sgd_entries fz cost) (enumerate n ps)))"
proof -
  have m: "(n + i, ps ! i) \<in> set (enumerate n ps)"
    using assms by (metis nth_enumerate_eq length_enumerate nth_mem)
  show "(updates_var (ps ! i), sgd_upd cost (ps ! i))
      \<in> set (concat (map (sgd_entries fz cost) (enumerate n ps)))"
    using m by (force simp: sgd_entries_def)
  show "fz \<le> int (n + i) \<Longrightarrow> (ps ! i, Add (SharedVar (ps ! i)) (sgd_upd cost (ps ! i)))
      \<in> set (concat (map (sgd_entries fz cost) (enumerate n ps)))"
    using m by (force simp: sgd_entries_def)
qed

lemma sgd_entries_key:
  assumes "k \<in> fst ` set (concat (map (sgd_entries fz cost) (enumerate n ps)))"
  shows "(\<exists>i < length ps. k = updates_var (ps ! i)) \<or>
         (\<exists>i < length ps. fz \<le> int (n + i) \<and> k = ps ! i)"
proof -
  from assms obtain m p where mp: "(m, p) \<in> set (enumerate n ps)"
    and k: "k \<in> fst ` set (sgd_entries fz cost (m, p))" by auto
  from mp obtain i where i: "i < length ps" "m = n + i" "p = ps ! i"
    by (auto simp: in_set_enumerate_eq) (metis add.commute le_add_diff_inverse less_diff_conv2)
  from k show ?thesis using i by (auto simp: sgd_entries_def split: if_splits)
qed

lemma sgd_keys_distinct:
  assumes "distinct (map sid ps)" and "\<forall>p \<in> set ps. \<exists>w j. sid p = Param w j"
  shows "distinct (map (\<lambda>ke. sid (fst ke)) (concat (map (sgd_entries fz cost) (enumerate n ps))))"
  using assms
proof (induction ps arbitrary: n)
  case Nil
  then show ?case by simp
next
  case (Cons p ps)
  from Cons.prems(2) obtain w j where pj: "sid p = Param w j" by auto
  have d1: "distinct (map (\<lambda>ke. sid (fst ke)) (sgd_entries fz cost (n, p)))"
    using updates_var_sid_neq [OF pj] by (simp add: sgd_entries_def)
  have d2: "distinct (map (\<lambda>ke. sid (fst ke))
      (concat (map (sgd_entries fz cost) (enumerate (Suc n) ps))))"
    using Cons.prems by (intro Cons.IH) auto
  have disj: "sid k \<noteq> sid k'"
    if k: "k \<in> fst ` set (sgd_entries fz cost (n, p))"
      and k': "k' \<in> fst ` set (concat (map (sgd_entries fz cost) (enumerate (Suc n) ps)))"
    for k k'
  proof -
    from sgd_entries_key [OF k'] obtain q where q: "q \<in> set ps" and kq: "k' = updates_var q \<or> k' = q"
      by (auto simp: in_set_conv_nth)
    from Cons.prems(2) q obtain w' j' where qj: "sid q = Param w' j'" by auto
    have ne: "sid p \<noteq> sid q" using Cons.prems(1) q by auto
    from k sgd_entries_keys [of fz cost n p] have "k = updates_var p \<or> k = p" by auto
    then show ?thesis
      using kq ne updates_var_sid_param [OF pj qj] updates_var_sid_param [OF qj pj]
        updates_var_sid_inj [OF pj qj ne] by auto
  qed
  have "set (map (\<lambda>ke. sid (fst ke)) (sgd_entries fz cost (n, p))) \<inter>
      set (map (\<lambda>ke. sid (fst ke)) (concat (map (sgd_entries fz cost) (enumerate (Suc n) ps)))) = {}"
  proof (rule ccontr)
    assume "\<not> ?thesis"
    then obtain x where x1: "x \<in> set (map (\<lambda>ke. sid (fst ke)) (sgd_entries fz cost (n, p)))"
      and x2: "x \<in> set (map (\<lambda>ke. sid (fst ke))
          (concat (map (sgd_entries fz cost) (enumerate (Suc n) ps))))" by blast
    from x1 obtain k where "k \<in> fst ` set (sgd_entries fz cost (n, p))" "x = sid k" by force
    moreover from x2 obtain k' where
      "k' \<in> fst ` set (concat (map (sgd_entries fz cost) (enumerate (Suc n) ps)))" "x = sid k'"
      by force
    ultimately show False using disj by metis
  qed
  then show ?case using d1 d2 by simp
qed

section \<open>One training step\<close>

lemma count_freeze_params_Inr:
  "count_freeze_params E N ls z = Inr z' \<Longrightarrow> \<forall>l \<in> set ls. l < length (self_rnn_layers N)"
proof (induction ls arbitrary: z)
  case Nil
  then show ?case by simp
next
  case (Cons l ls)
  from Cons.prems have "l < length (self_rnn_layers N)"
    by (auto simp: bindE_Inr_iff py_getitem_def split: if_splits)
  moreover from Cons.prems obtain z1 where "count_freeze_params E N ls z1 = Inr z'"
    by (auto simp: bindE_Inr_iff)
  ultimately show ?case using Cons.IH by auto
qed

lemma trained_params_subset: "set (trained_params N use_lhuc) \<subseteq> set (self_params N)"
  by (auto simp: trained_params_def)

lemma trained_params_distinct:
  "distinct (map sid (self_params N)) \<Longrightarrow> distinct (map sid (trained_params N use_lhuc))"
  by (simp add: trained_params_def distinct_map_filter)

text \<open>What \<^verbatim>\<open>build_finetune_functions\<close> returns on a constructed network under \<^verbatim>\<open>'sgd'\<close>.\<close>

lemma build_sgd_Inr:
  assumes N: "init E a = Inr N" and sgd: "optimizer a = ''sgd''"
    and b: "build_finetune_functions E Q N train_xy valid_xy use_lhuc layer_index
       = Inr (train_model, valid_model)"
  shows "\<exists>cost. self_finetune_cost N = Some cost \<and>
     nat layer_index \<le> length (self_rnn_layers N) \<and>
     fn_updates train_model =
       concat (map (sgd_entries (frozen_count E N layer_index) cost)
                 (enumerate 0 (trained_params N use_lhuc))) \<and>
     fn_inputs train_model = [lr_var, mom_var] \<and>
     fn_updates valid_model = [] \<and> fn_inputs valid_model = []"
proof -
  obtain train_set_x train_set_y valid_set_x valid_set_y where
    xy: "train_xy = (train_set_x, train_set_y)" "valid_xy = (valid_set_x, valid_set_y)"
    by (cases train_xy, cases valid_xy) auto
  have opt: "self_optimizer N = ''sgd''" using init_fields(6) [OF N] sgd by simp
  let ?ps = "trained_params N use_lhuc"
  from b obtain cost fz us errs where
    cost: "self_finetune_cost N = Some cost"
    and fz: "count_freeze_params E N [0 ..< nat layer_index] 0 = Inr fz"
    and us: "sgd_loop N fz (enumerate 0 (zip ?ps (map (Grad cost) ?ps))) [] = Inr us"
    and tm: "train_model = \<lparr> fn_inputs = [lr_var, mom_var], fn_outputs = errs, fn_updates = us,
             fn_givens = [(self_x N, GExpr train_set_x), (self_y N, GExpr train_set_y),
                          (self_is_train N, GExpr (Int32 1))] \<rparr>"
    and vm: "valid_model = \<lparr> fn_inputs = [], fn_outputs = errs, fn_updates = [],
             fn_givens = [(self_x N, GExpr valid_set_x), (self_y N, GExpr valid_set_y),
                          (self_is_train N, GExpr (Int32 0))] \<rparr>"
    unfolding build_finetune_functions_def xy trained_params_def
    by (auto simp: bindE_Inr_iff getattr_def opt Let_def split: option.splits)
  have li: "nat layer_index \<le> length (self_rnn_layers N)"
  proof (cases "nat layer_index")
    case 0
    then show ?thesis by simp
  next
    case (Suc m)
    then have "m \<in> set [0 ..< nat layer_index]" by simp
    with count_freeze_params_Inr [OF fz] have "m < length (self_rnn_layers N)" by blast
    then show ?thesis using Suc by simp
  qed
  have fz': "fz = frozen_count E N layer_index"
    using fz count_freeze_params_frozen [OF li, of E] by simp
  have upd: "self_updates N = make_updates (self_params N)"
    using init_Inr(2) [OF N] by auto
  have look: "\<forall>p \<in> set ?ps. dict_get (self_updates N) p = Inr (updates_var p)"
    using trained_params_subset [of N use_lhuc] by (auto simp: upd dict_get_make_updates)
  have d: "distinct (map sid ?ps)"
    using trained_params_distinct [OF init_params_distinct(1) [OF N]] .
  have par: "\<forall>p \<in> set ?ps. \<exists>w j. sid p = Param w j"
    using init_params_distinct(2) [OF N] trained_params_subset [of N use_lhuc] by blast
  have "sgd_loop N fz (enumerate 0 (zip ?ps (map (Grad cost) ?ps))) []
      = Inr ([] @ concat (map (sgd_entries fz cost) (enumerate 0 ?ps)))"
    by (rule sgd_loop_eq [OF look d par]) simp
  with us have "us = concat (map (sgd_entries fz cost) (enumerate 0 ?ps))" by simp
  then show ?thesis using cost li fz' tm vm by simp
qed

lemma eval_sgd_upd:
  "eval I (train_env fn lr mom) st (sgd_upd cost p) =
     i_sub I (i_mul I mom (st (sid (updates_var p))))
       (i_mul I lr (i_node I (train_env fn lr mom) st (Grad cost p)))"
  by (simp add: sgd_upd_def train_env_def lr_var_def mom_var_def)

lemma map_of_distinct_sid:
  assumes "distinct (map (\<lambda>ke. sid (fst ke)) U)" and "(k, e) \<in> set U"
  shows "map_of (map (\<lambda>(s, e). (sid s, e)) U) (sid k) = Some e"
proof -
  have "fst \<circ> (\<lambda>(s, e). (sid s, e)) = (\<lambda>ke :: shared \<times> 'a. sid (fst ke))"
    by (auto simp: fun_eq_iff)
  then have "distinct (map fst (map (\<lambda>(s, e). (sid s, e)) U))" using assms(1) by simp
  moreover have "(sid k, e) \<in> set (map (\<lambda>(s, e). (sid s, e)) U)" using assms(2) by force
  ultimately show ?thesis by (rule map_of_is_SomeI)
qed

lemma map_of_sid_None:
  assumes "\<forall>k \<in> fst ` set U. sid k \<noteq> x"
  shows "map_of (map (\<lambda>(s, e). (sid s, e)) U) x = None"
proof -
  have "x \<notin> fst ` set (map (\<lambda>(s, e). (sid s, e)) U)" using assms by force
  then show ?thesis by (simp add: map_of_eq_None_iff)
qed

text \<open>
  One call of a training function whose updates are those of the momentum rule over a list
  of different parameters.
\<close>

lemma sgd_call:
  assumes u: "fn_updates fn = concat (map (sgd_entries fz cost) (enumerate 0 ps))"
    and inp: "fn_inputs fn = [lr_var, mom_var]"
    and d: "distinct (map sid ps)" and par: "\<forall>p \<in> set ps. \<exists>w j. sid p = Param w j"
    and i: "i < length ps"
  shows "snd (call_function I fn [lr, mom] st) (sid (updates_var (ps ! i))) =
       i_sub I (i_mul I mom (st (sid (updates_var (ps ! i)))))
         (i_mul I lr (i_node I (train_env fn lr mom) st (Grad cost (ps ! i))))"
    and "fz \<le> int i \<Longrightarrow> snd (call_function I fn [lr, mom] st) (sid (ps ! i)) =
       i_add I (st (sid (ps ! i))) (snd (call_function I fn [lr, mom] st) (sid (updates_var (ps ! i))))"
    and "int i < fz \<Longrightarrow> snd (call_function I fn [lr, mom] st) (sid (ps ! i)) = st (sid (ps ! i))"
proof -
  let ?U = "concat (map (sgd_entries fz cost) (enumerate 0 ps))"
  let ?en = "train_env fn lr mom"
  have dU: "distinct (map (\<lambda>ke. sid (fst ke)) ?U)" using sgd_keys_distinct [OF d par] .
  have call: "snd (call_function I fn [lr, mom] st) x =
      (case map_of (map (\<lambda>(s, e). (sid s, e)) ?U) x of None \<Rightarrow> st x
       | Some e \<Rightarrow> eval I ?en st e)" for x
    by (simp add: call_function_def Let_def u inp train_env_def cong: option.case_cong)
  have v: "snd (call_function I fn [lr, mom] st) (sid (updates_var (ps ! i))) =
      eval I ?en st (sgd_upd cost (ps ! i))"
    unfolding call using map_of_distinct_sid [OF dU sgd_entries_mem(1) [OF i]] by simp
  show 1: "snd (call_function I fn [lr, mom] st) (sid (updates_var (ps ! i))) =
       i_sub I (i_mul I mom (st (sid (updates_var (ps ! i)))))
         (i_mul I lr (i_node I (train_env fn lr mom) st (Grad cost (ps ! i))))"
    unfolding v by (rule eval_sgd_upd)
  show "snd (call_function I fn [lr, mom] st) (sid (ps ! i)) =
       i_add I (st (sid (ps ! i))) (snd (call_function I fn [lr, mom] st) (sid (updates_var (ps ! i))))"
    if "fz \<le> int i"
  proof -
    have "(ps ! i, Add (SharedVar (ps ! i)) (sgd_upd cost (ps ! i))) \<in> set ?U"
      using sgd_entries_mem(2) [OF i, of fz 0] that by simp
    from map_of_distinct_sid [OF dU this]
    have "snd (call_function I fn [lr, mom] st) (sid (ps ! i)) =
        eval I ?en st (Add (SharedVar (ps ! i)) (sgd_upd cost (ps ! i)))"
      unfolding call by simp
    then show ?thesis unfolding v by simp
  qed
  show "snd (call_function I fn [lr, mom] st) (sid (ps ! i)) = st (sid (ps ! i))"
    if "int i < fz"
  proof -
    have "\<forall>k \<in> fst ` set ?U. sid k \<noteq> sid (ps ! i)"
    proof
      fix k assume "k \<in> fst ` set ?U"
      from sgd_entries_key [OF this] consider j where "j < length ps" "k = updates_var (ps ! j)"
        | j where "j < length ps" "fz \<le> int j" "k = ps ! j" by auto
      then show "sid k \<noteq> sid (ps ! i)"
      proof cases
        case 1
        from par 1(1) obtain w j' where "sid (ps ! j) = Param w j'" by (meson nth_mem)
        moreover from par i obtain w' j'' where "sid (ps ! i) = Param w' j''" by (meson nth_mem)
        ultimately show ?thesis using updates_var_sid_param 1(2) by blast
      next
        case 2
        then have "j \<noteq> i" using that by auto
        moreover have "(map sid ps ! j = map sid ps ! i) = (j = i)"
          using d 2(1) i by (intro nth_eq_iff_index_eq) simp_all
        ultimately show ?thesis using 2 i by simp
      qed
    qed
    from map_of_sid_None [OF this] show ?thesis unfolding call by simp
  qed
qed

section \<open>The training and validation functions\<close>

lemma call_function_valid:
  "fn_updates fn = [] \<Longrightarrow> snd (call_function I fn vals st) = st"
  by (simp add: call_function_def Let_def)

lemma frozen_count_nonpos: "layer_index \<le> 0 \<Longrightarrow> frozen_count E N layer_index = 0"
  by (simp add: frozen_count_def)

lemma hidden_params_mem:
  "p \<in> set (hidden_params E L k) \<longleftrightarrow> (\<exists>l < k. p \<in> set (layer_params E (Hidden l) (L ! l)))"
  by (auto simp: hidden_params_def)

lemma frozen_count_hidden_params:
  "frozen_count E N layer_index =
     int (length (hidden_params E (self_rnn_layers N) (nat layer_index)))"
  by (simp add: frozen_count_def length_hidden_params)

text \<open>
  The index of a parameter in \<^verbatim>\<open>self.params\<close> is below \<^verbatim>\<open>freeze_params\<close> exactly when
  the parameter is one of the first \<^verbatim>\<open>layer_index\<close> hidden layers.
\<close>

lemma frozen_index_iff:
  assumes N: "init E a = Inr N"
    and k: "nat layer_index \<le> length (self_rnn_layers N)"
    and i: "i < length (self_params N)"
  shows "int i < frozen_count E N layer_index \<longleftrightarrow>
     (\<exists>l < nat layer_index.
        self_params N ! i \<in> set (layer_params E (Hidden l) (self_rnn_layers N ! l)))"
proof -
  let ?L = "self_rnn_layers N"
  let ?ps = "self_params N"
  let ?pre = "hidden_params E ?L (nat layer_index)"
  from init_params [OF N] obtain F where
    ps: "?ps = hidden_params E ?L (length ?L) @ F" by blast
  obtain rest where split: "?ps = ?pre @ rest"
    using ps hidden_params_split [OF k, of E ?L] by simp
  have fz: "frozen_count E N layer_index = int (length ?pre)"
    by (rule frozen_count_hidden_params)
  have d: "distinct ?ps" using init_params_distinct(1) [OF N] by (simp add: distinct_map)
  have "i < length ?pre \<longleftrightarrow> ?ps ! i \<in> set ?pre"
  proof
    assume "i < length ?pre"
    then show "?ps ! i \<in> set ?pre" using split by (simp add: nth_append)
  next
    assume "?ps ! i \<in> set ?pre"
    then obtain j where j: "j < length ?pre" "?pre ! j = ?ps ! i"
      by (auto simp: in_set_conv_nth)
    then have "j < length ?ps" "?ps ! j = ?ps ! i" using split by (simp_all add: nth_append)
    then have "j = i" using d i by (simp add: nth_eq_iff_index_eq)
    then show "i < length ?pre" using j(1) by simp
  qed
  then show ?thesis unfolding fz hidden_params_mem by simp
qed

lemma projr_init_example:
  "init ext_example args_example = Inr N \<Longrightarrow> N = projr (init ext_example args_example)"
  by simp

lemma build_example_ok:
  assumes "init ext_example args_example = Inr N"
  shows "\<exists>tm vm. (build_finetune_functions ext_example opt_example N train_data valid_data False 0
     :: error + (unit tfunction \<times> unit tfunction)) = Inr (tm, vm)"
proof -
  have "\<not> isl (build_finetune_functions ext_example opt_example
      (projr (init ext_example args_example)) train_data valid_data False 0
     :: error + (unit tfunction \<times> unit tfunction))"
    by code_simp
  then show ?thesis
    unfolding projr_init_example [OF assms, symmetric]
    by (cases "build_finetune_functions ext_example opt_example N train_data valid_data False 0
     :: error + (unit tfunction \<times> unit tfunction)") auto
qed

lemma build_example_frozen_ok:
  assumes "init ext_example args_example = Inr N"
  shows "\<exists>tm vm. (build_finetune_functions ext_example opt_example N train_data valid_data False 1
     :: error + (unit tfunction \<times> unit tfunction)) = Inr (tm, vm)"
proof -
  have "\<not> isl (build_finetune_functions ext_example opt_example
      (projr (init ext_example args_example)) train_data valid_data False 1
     :: error + (unit tfunction \<times> unit tfunction))"
    by code_simp
  then show ?thesis
    unfolding projr_init_example [OF assms, symmetric]
    by (cases "build_finetune_functions ext_example opt_example N train_data valid_data False 1
     :: error + (unit tfunction \<times> unit tfunction)") auto
qed

lemma params_example_layers:
  assumes "init ext_example args_example = Inr N"
  shows "self_params N ! 0 \<in> set (self_params N)"
    and "last (self_params N) \<in> set (self_params N)"
    and "self_params N ! 0 \<in> set (layer_params ext_example (Hidden 0) (self_rnn_layers N ! 0))"
    and "last (self_params N) \<notin> set (layer_params ext_example (Hidden 0) (self_rnn_layers N ! 0))"
proof -
  let ?N = "projr (init ext_example args_example)"
  have "self_params ?N ! 0 \<in> set (self_params ?N)" by code_simp
  then show "self_params N ! 0 \<in> set (self_params N)"
    unfolding projr_init_example [OF assms, symmetric] .
  have "last (self_params ?N) \<in> set (self_params ?N)" by code_simp
  then show "last (self_params N) \<in> set (self_params N)"
    unfolding projr_init_example [OF assms, symmetric] .
  have "self_params ?N ! 0 \<in> set (layer_params ext_example (Hidden 0) (self_rnn_layers ?N ! 0))"
    by code_simp
  then show "self_params N ! 0 \<in> set (layer_params ext_example (Hidden 0) (self_rnn_layers N ! 0))"
    unfolding projr_init_example [OF assms, symmetric] .
  have "last (self_params ?N) \<notin> set (layer_params ext_example (Hidden 0) (self_rnn_layers ?N ! 0))"
    by code_simp
  then show "last (self_params N) \<notin> set (layer_params ext_example (Hidden 0) (self_rnn_layers N ! 0))"
    unfolding projr_init_example [OF assms, symmetric] .
qed

text \<open>
  Claim C4, amended. Under \<^verbatim>\<open>'sgd'\<close>, the velocity of every parameter the training function
  takes a gradient of (every parameter of the network, or under LHUC those named \<^verbatim>\<open>c\<close>) is
  the \<^verbatim>\<open>'updates'\<close> variable stored for it in \<^verbatim>\<open>self.updates\<close>, created as zeros of the
  parameter's shape, and one call of the training function with learning rate \<open>lr\<close> and
  momentum \<open>mom\<close> sets it to \<open>mom * v - lr * g\<close>, \<open>g\<close> being the value of the gradient of the
  cost. The call sets the parameter itself to its old value plus the new velocity when
  \<^verbatim>\<open>layer_index\<close> is at most 0, and, without LHUC, when the parameter is not one of the first
  \<^verbatim>\<open>layer_index\<close> hidden layers; without LHUC a parameter of those layers keeps its value.
  The three operations are the library's, whatever they compute. The validation function
  has no updates and a call leaves every shared variable as it was.
\<close>

theorem sgd_training_step:
  assumes "init E a = Inr N" and "optimizer a = ''sgd''"
    and "build_finetune_functions E Q N train_xy valid_xy use_lhuc layer_index
       = Inr (train_model, valid_model)"
  shows
    "\<exists>cost. self_finetune_cost N = Some cost \<and>
       (let en = train_env train_model lr mom;
            st' = snd (call_function I train_model [lr, mom] st)
        in \<forall>p \<in> set (trained_params N use_lhuc).
             let v = updates_var p;
                 early = (\<exists>l < nat layer_index.
                            p \<in> set (layer_params E (Hidden l) (self_rnn_layers N ! l)))
             in map_of (self_updates N) p = Some v \<and>
                sname v = ''updates'' \<and> svalue v = Zeros (shape (svalue p)) \<and>
                st' (sid v) =
                  i_sub I (i_mul I mom (st (sid v))) (i_mul I lr (i_node I en st (Grad cost p))) \<and>
                (layer_index \<le> 0 \<or> \<not> use_lhuc \<and> \<not> early \<longrightarrow>
                   st' (sid p) = i_add I (st (sid p)) (st' (sid v))) \<and>
                (\<not> use_lhuc \<and> early \<longrightarrow> st' (sid p) = st (sid p))) \<and>
       fn_updates valid_model = [] \<and>
       snd (call_function I valid_model [] st) = st"
proof -
  let ?L = "self_rnn_layers N"
  let ?k = "nat layer_index"
  let ?ps = "trained_params N use_lhuc"
  let ?st' = "snd (call_function I train_model [lr, mom] st)"
  let ?early = "\<lambda>p. \<exists>l < ?k. p \<in> set (layer_params E (Hidden l) (?L ! l))"
  from build_sgd_Inr [OF assms] obtain cost where
    cost: "self_finetune_cost N = Some cost"
    and k: "?k \<le> length ?L"
    and u: "fn_updates train_model =
       concat (map (sgd_entries (frozen_count E N layer_index) cost) (enumerate 0 ?ps))"
    and inp: "fn_inputs train_model = [lr_var, mom_var]"
    and vu: "fn_updates valid_model = []" by blast
  have d: "distinct (map sid ?ps)"
    using trained_params_distinct [OF init_params_distinct(1) [OF assms(1)]] .
  have par: "\<forall>p \<in> set ?ps. \<exists>w j. sid p = Param w j"
    using init_params_distinct(2) [OF assms(1)] trained_params_subset [of N use_lhuc] by blast
  have upd: "self_updates N = make_updates (self_params N)"
    using init_Inr(2) [OF assms(1)] by auto
  note call = sgd_call [OF u inp d par, of _ I lr mom st]
  have step: "map_of (self_updates N) p = Some (updates_var p) \<and>
      sname (updates_var p) = ''updates'' \<and>
      svalue (updates_var p) = Zeros (shape (svalue p)) \<and>
      ?st' (sid (updates_var p)) =
        i_sub I (i_mul I mom (st (sid (updates_var p))))
          (i_mul I lr (i_node I (train_env train_model lr mom) st (Grad cost p))) \<and>
      (layer_index \<le> 0 \<or> \<not> use_lhuc \<and> \<not> ?early p \<longrightarrow>
         ?st' (sid p) = i_add I (st (sid p)) (?st' (sid (updates_var p)))) \<and>
      (\<not> use_lhuc \<and> ?early p \<longrightarrow> ?st' (sid p) = st (sid p))"
    if p: "p \<in> set ?ps" for p
  proof -
    from p obtain i where i: "i < length ?ps" "?ps ! i = p" by (auto simp: in_set_conv_nth)
    have "p \<in> set (self_params N)" using trained_params_subset [of N use_lhuc] p by blast
    then have m: "map_of (self_updates N) p = Some (updates_var p)"
      unfolding upd by (rule map_of_make_updates)
    have v: "?st' (sid (updates_var p)) =
        i_sub I (i_mul I mom (st (sid (updates_var p))))
          (i_mul I lr (i_node I (train_env train_model lr mom) st (Grad cost p)))"
      using call(1) [OF i(1)] i(2) by simp
    have idx: "int i < frozen_count E N layer_index \<longleftrightarrow> ?early p" if "\<not> use_lhuc"
    proof -
      from that have tp: "?ps = self_params N" by (simp add: trained_params_def)
      from frozen_index_iff [OF assms(1) k, where i = i] i show ?thesis unfolding tp by simp
    qed
    have w: "?st' (sid p) = i_add I (st (sid p)) (?st' (sid (updates_var p)))"
      if c: "layer_index \<le> 0 \<or> \<not> use_lhuc \<and> \<not> ?early p"
    proof -
      have "frozen_count E N layer_index \<le> int i"
      proof (cases "layer_index \<le> 0")
        case True
        then show ?thesis by (simp add: frozen_count_nonpos)
      next
        case False
        with c have "\<not> use_lhuc" "\<not> ?early p" by blast+
        then show ?thesis using idx by auto
      qed
      from call(2) [OF i(1) this] show ?thesis using i(2) by simp
    qed
    have f: "?st' (sid p) = st (sid p)" if c: "\<not> use_lhuc \<and> ?early p"
    proof -
      from c idx have "int i < frozen_count E N layer_index" by blast
      from call(3) [OF i(1) this] show ?thesis using i(2) by simp
    qed
    from m v w f updates_var_fields show ?thesis by blast
  qed
  show ?thesis
    unfolding Let_def
    using cost step vu call_function_valid [OF vu] by blast
qed

theorem sgd_training_step_witness:
  "\<exists>N tm vm tm' vm'. init ext_example args_example = Inr N \<and>
     (build_finetune_functions ext_example opt_example N train_data valid_data False 0
        :: error + (unit tfunction \<times> unit tfunction)) = Inr (tm, vm) \<and>
     (build_finetune_functions ext_example opt_example N train_data valid_data False 1
        :: error + (unit tfunction \<times> unit tfunction)) = Inr (tm', vm') \<and>
     (let first = self_params N ! 0; final = last (self_params N);
          st0 = snd (call_function interp_example tm [2, 3] store_example);
          st1 = snd (call_function interp_example tm' [2, 3] store_example)
      in map_of (self_updates N) first = Some (updates_var first) \<and>
         svalue (updates_var first) = Zeros (shape (svalue first)) \<and>
         st0 (sid (updates_var first)) = 3 * 1 - 2 * 5 \<and> st0 (sid first) = 1 + (3 * 1 - 2 * 5) \<and>
         st1 (sid (updates_var first)) = 3 * 1 - 2 * 5 \<and> st1 (sid first) = 1 \<and>
         st1 (sid (updates_var final)) = 3 * 1 - 2 * 5 \<and> st1 (sid final) = 1 + (3 * 1 - 2 * 5)) \<and>
     snd (call_function interp_example vm [] store_example) = store_example \<and>
     snd (call_function interp_example vm' [] store_example) = store_example"
proof -
  from init_example_ok obtain N where N: "init ext_example args_example = Inr N" ..
  from build_example_ok [OF N] obtain tm vm where
    b: "(build_finetune_functions ext_example opt_example N train_data valid_data False 0
        :: error + (unit tfunction \<times> unit tfunction)) = Inr (tm, vm)" by blast
  from build_example_frozen_ok [OF N] obtain tm' vm' where
    b': "(build_finetune_functions ext_example opt_example N train_data valid_data False 1
        :: error + (unit tfunction \<times> unit tfunction)) = Inr (tm', vm')" by blast
  have sgd: "optimizer args_example = ''sgd''" by (simp add: args_example_def)
  note m = params_example_layers [OF N]
  let ?st0 = "snd (call_function interp_example tm [2, 3] store_example)"
  let ?st1 = "snd (call_function interp_example tm' [2, 3] store_example)"
  let ?first = "self_params N ! 0"
  let ?final = "last (self_params N)"
  from sgd_training_step [OF N sgd b, where I = interp_example and lr = 2 and mom = 3
      and st = store_example]
  have all0: "\<forall>p \<in> set (self_params N).
      map_of (self_updates N) p = Some (updates_var p) \<and>
      svalue (updates_var p) = Zeros (shape (svalue p)) \<and>
      ?st0 (sid (updates_var p)) = 3 * 1 - 2 * 5 \<and>
      ?st0 (sid p) = 1 + ?st0 (sid (updates_var p))"
    and v0: "snd (call_function interp_example vm [] store_example) = store_example"
    unfolding Let_def
    by (auto simp: trained_params_def interp_example_def store_example_def)
  from sgd_training_step [OF N sgd b', where I = interp_example and lr = 2 and mom = 3
      and st = store_example]
  have all1: "\<forall>p \<in> set (self_params N).
      ?st1 (sid (updates_var p)) = 3 * 1 - 2 * 5 \<and>
      (p \<notin> set (layer_params ext_example (Hidden 0) (self_rnn_layers N ! 0)) \<longrightarrow>
         ?st1 (sid p) = 1 + ?st1 (sid (updates_var p))) \<and>
      (p \<in> set (layer_params ext_example (Hidden 0) (self_rnn_layers N ! 0)) \<longrightarrow>
         ?st1 (sid p) = 1)"
    and v1: "snd (call_function interp_example vm' [] store_example) = store_example"
    unfolding Let_def
    by (auto simp: trained_params_def interp_example_def store_example_def)
  from all0 m(1) have 0:
    "map_of (self_updates N) ?first = Some (updates_var ?first) \<and>
     svalue (updates_var ?first) = Zeros (shape (svalue ?first)) \<and>
     ?st0 (sid (updates_var ?first)) = 3 * 1 - 2 * 5 \<and>
     ?st0 (sid ?first) = 1 + (3 * 1 - 2 * 5)"
    by auto
  from all1 m(1) m(3) have 1:
    "?st1 (sid (updates_var ?first)) = 3 * 1 - 2 * 5 \<and> ?st1 (sid ?first) = 1"
    by auto
  from all1 m(2) m(4) have 2:
    "?st1 (sid (updates_var ?final)) = 3 * 1 - 2 * 5 \<and>
     ?st1 (sid ?final) = 1 + (3 * 1 - 2 * 5)"
    by auto
  from N b b' 0 1 2 v0 v1 show ?thesis unfolding Let_def by blast
qed

theorem frozen_parameter_counterexample:
  "init ext_example args_example = Inr net_example \<and>
   optimizer args_example = ''sgd'' \<and>
   build_finetune_functions ext_example opt_example net_example train_data valid_data False 1
     = Inr (train_frozen, valid_frozen) \<and>
   self_params net_example ! 0 \<in> set (trained_params net_example False) \<and>
   map_of (self_updates net_example) (self_params net_example ! 0) =
     Some (updates_var (self_params net_example ! 0)) \<and>
   store_example (sid (self_params net_example ! 0)) = 1 \<and>
   snd (call_function interp_example train_frozen [2, 3] store_example)
     (sid (updates_var (self_params net_example ! 0))) = - 7 \<and>
   snd (call_function interp_example train_frozen [2, 3] store_example)
     (sid (self_params net_example ! 0)) = 1 \<and>
   i_add interp_example 1 (- 7) = - 6"
proof -
  have "\<not> isl (init ext_example args_example)" by code_simp
  then have 1: "init ext_example args_example = Inr net_example"
    unfolding net_example_def by (rule Inr_projr)
  have "\<not> isl (build_finetune_functions ext_example opt_example net_example
      train_data valid_data False 1 :: error + (unit tfunction \<times> unit tfunction))"
    by code_simp
  then have 2: "build_finetune_functions ext_example opt_example net_example train_data valid_data
      False 1 = Inr (train_frozen, valid_frozen)"
    unfolding train_frozen_def valid_frozen_def using Inr_projr by fastforce
  have 3: "optimizer args_example = ''sgd'' \<and>
   self_params net_example ! 0 \<in> set (trained_params net_example False) \<and>
   map_of (self_updates net_example) (self_params net_example ! 0) =
     Some (updates_var (self_params net_example ! 0)) \<and>
   store_example (sid (self_params net_example ! 0)) = 1 \<and>
   snd (call_function interp_example train_frozen [2, 3] store_example)
     (sid (updates_var (self_params net_example ! 0))) = - 7 \<and>
   snd (call_function interp_example train_frozen [2, 3] store_example)
     (sid (self_params net_example ! 0)) = 1 \<and>
   i_add interp_example 1 (- 7) = - 6"
    by code_simp
  from 1 2 3 show ?thesis by simp
qed

section \<open>Frozen layers\<close>




end
